theory Spec2Isabelle
  imports Complex_Main
begin

section \<open>JavaScript values\<close>

text \<open>
  The tool arguments of \<^verbatim>\<open>src/types.ts\<close> are declared \<^verbatim>\<open>any\<close>: they are whatever
  the request carried, that is, a value \<^verbatim>\<open>JSON.parse\<close> builds, or \<^verbatim>\<open>undefined\<close> where
  nothing was sent. A number is an IEEE double: a finite one is the real number it
  denotes (both zeros are \<open>Finite 0\<close>), and the three special values are constructors of
  their own. A string is the sequence of its bytes in UTF-8 (ASCII letters and digits are
  single bytes that occur in no longer sequence, so the comparisons and the pattern test
  of the validators read it correctly). An object is the list of its own properties, each
  name once; an array is the list of its elements.
\<close>

datatype jsnum = Finite real | NaN | PosInfinity | NegInfinity

datatype jsval =
    JUndefined
  | JNull
  | JBool bool
  | JNum jsnum
  | JStr string
  | JArr "jsval list"
  | JObj "(string \<times> jsval) list"

text \<open>The exception of the engine that the code can meet: a TypeError, thrown by
  reading a property of \<^verbatim>\<open>undefined\<close> or \<^verbatim>\<open>null\<close> and by converting to a string
  an object that has no primitive value.\<close>

datatype js_exn = TypeError

definition nullish :: "jsval \<Rightarrow> bool" where
  "nullish v = (v = JUndefined \<or> v = JNull)"

text \<open>
  \<open>own v k\<close> is the property read \<^verbatim>\<open>v.k\<close> on a value that is neither
  \<^verbatim>\<open>undefined\<close> nor \<^verbatim>\<open>null\<close>. It is used at the property names the source reads
  (\<^verbatim>\<open>bpm row col note divide updates type state states notes divides preset port enabled
  track cc value param\<close> and the fields of a response's data): none of them is a member
  of a built-in prototype, and none is an own property of a string or an array, so on a
  primitive and on an array the read yields \<^verbatim>\<open>undefined\<close>.
\<close>

fun own :: "jsval \<Rightarrow> string \<Rightarrow> jsval" where
  "own (JObj fs) k = (case map_of fs k of None \<Rightarrow> JUndefined | Some v \<Rightarrow> v)"
| "own _ k = JUndefined"

text \<open>\<^verbatim>\<open>typeof v === "number"\<close>, \<^verbatim>\<open>"string"\<close>, \<^verbatim>\<open>"boolean"\<close> and
  \<^verbatim>\<open>Array.isArray(v)\<close>.\<close>

fun is_number :: "jsval \<Rightarrow> bool" where
  "is_number (JNum _) = True"
| "is_number _ = False"

fun is_string :: "jsval \<Rightarrow> bool" where
  "is_string (JStr _) = True"
| "is_string _ = False"

fun is_boolean :: "jsval \<Rightarrow> bool" where
  "is_boolean (JBool _) = True"
| "is_boolean _ = False"

fun isArray :: "jsval \<Rightarrow> bool" where
  "isArray (JArr _) = True"
| "isArray _ = False"

text \<open>The elements of an array (the validators read them only after
  \<^verbatim>\<open>Array.isArray\<close> has answered true).\<close>

fun elements :: "jsval \<Rightarrow> jsval list" where
  "elements (JArr xs) = xs"
| "elements _ = []"

text \<open>
  \<^verbatim>\<open>n >= c\<close> and \<^verbatim>\<open>n <= c\<close> for a number \<open>n\<close> and a finite constant \<open>c\<close>: every
  comparison with NaN is false.
\<close>

fun num_ge :: "jsnum \<Rightarrow> real \<Rightarrow> bool" where
  "num_ge (Finite r) c = (c \<le> r)"
| "num_ge NaN c = False"
| "num_ge PosInfinity c = True"
| "num_ge NegInfinity c = False"

fun num_le :: "jsnum \<Rightarrow> real \<Rightarrow> bool" where
  "num_le (Finite r) c = (r \<le> c)"
| "num_le NaN c = False"
| "num_le PosInfinity c = False"
| "num_le NegInfinity c = True"

text \<open>\<^verbatim>\<open>typeof v === "number" && v >= lo && v <= hi\<close>: the comparisons are reached
  only for a number.\<close>

fun number_between :: "real \<Rightarrow> real \<Rightarrow> jsval \<Rightarrow> bool" where
  "number_between lo hi (JNum n) = (num_ge n lo \<and> num_le n hi)"
| "number_between lo hi _ = False"

text \<open>
  \<^verbatim>\<open>xs.includes(v)\<close> compares with SameValueZero: two primitives are the same when they
  are equal (NaN is the same as NaN), an object or an array is the same only as itself,
  so never as an element of a freshly written literal.
\<close>

fun sameValueZero :: "jsval \<Rightarrow> jsval \<Rightarrow> bool" where
  "sameValueZero (JArr _) _ = False"
| "sameValueZero (JObj _) _ = False"
| "sameValueZero a b = (a = b)"

definition array_includes :: "jsval list \<Rightarrow> jsval \<Rightarrow> bool" where
  "array_includes xs v = list_ex (\<lambda>x. sameValueZero x v) xs"

definition one_two_three :: "jsval list" where
  "one_two_three = [JNum (Finite 1), JNum (Finite 2), JNum (Finite 3)]"

text \<open>
  \<^verbatim>\<open>xs.every(f)\<close> for a callback that can throw: the elements are visited in order,
  the first false verdict ends the loop, and an exception of the callback leaves it.
\<close>

fun every :: "('a \<Rightarrow> js_exn + bool) \<Rightarrow> 'a list \<Rightarrow> js_exn + bool" where
  "every f [] = Inr True"
| "every f (x # xs) =
     (case f x of
        Inl e \<Rightarrow> Inl e
      | Inr ok \<Rightarrow> if ok then every f xs else Inr False)"

section \<open>The validators of types.ts\<close>

text \<open>
  Each validator starts with a property read of its argument, which throws a TypeError
  when the argument is \<^verbatim>\<open>undefined\<close> or \<^verbatim>\<open>null\<close>; after a first read has
  succeeded the later ones cannot throw.
\<close>

definition isSetBpmArgs :: "jsval \<Rightarrow> js_exn + bool" where
  "isSetBpmArgs args =
     (if nullish args then Inl TypeError
      else Inr (number_between 60 300 (own args ''bpm'')))"

definition isToggleStepArgs :: "jsval \<Rightarrow> js_exn + bool" where
  "isToggleStepArgs args =
     (if nullish args then Inl TypeError
      else Inr (is_number (own args ''row'') \<and> is_number (own args ''col'')))"

definition isSetNoteArgs :: "jsval \<Rightarrow> js_exn + bool" where
  "isSetNoteArgs args =
     (if nullish args then Inl TypeError
      else
        let validDivide =
              (own args ''divide'' = JUndefined \<or> array_includes one_two_three (own args ''divide''))
        in Inr (is_number (own args ''row'') \<and>
                is_number (own args ''col'') \<and>
                number_between 0 127 (own args ''note'') \<and>
                validDivide))"

definition validTypes :: "jsval list" where
  "validTypes =
     [JStr ''sequence'', JStr ''note'', JStr ''divide'',
      JStr ''sequence_row'', JStr ''note_row'', JStr ''divide_row'',
      JStr ''sequence_all'', JStr ''note_all'', JStr ''divide_all'']"

text \<open>The callback of \<^verbatim>\<open>args.updates.every\<close>: the read \<^verbatim>\<open>update.type\<close> throws on an
  element that is \<^verbatim>\<open>undefined\<close> or \<^verbatim>\<open>null\<close>; the switch compares with
  \<^verbatim>\<open>===\<close>.\<close>

definition checkUpdate :: "jsval \<Rightarrow> js_exn + bool" where
  "checkUpdate update =
     (if nullish update then Inl TypeError
      else if \<not> array_includes validTypes (own update ''type'') then Inr False
      else Inr (
        let ty = own update ''type'' in
        if ty = JStr ''sequence'' then
          is_number (own update ''row'') \<and>
          is_number (own update ''col'') \<and>
          is_boolean (own update ''state'')
        else if ty = JStr ''note'' then
          is_number (own update ''row'') \<and>
          is_number (own update ''col'') \<and>
          number_between 0 127 (own update ''note'')
        else if ty = JStr ''divide'' then
          is_number (own update ''row'') \<and>
          is_number (own update ''col'') \<and>
          array_includes one_two_three (own update ''divide'')
        else if ty = JStr ''sequence_row'' then
          is_number (own update ''row'') \<and>
          isArray (own update ''states'') \<and>
          list_all is_boolean (elements (own update ''states''))
        else if ty = JStr ''note_row'' then
          is_number (own update ''row'') \<and>
          isArray (own update ''notes'') \<and>
          list_all (number_between 0 127) (elements (own update ''notes''))
        else if ty = JStr ''divide_row'' then
          is_number (own update ''row'') \<and>
          isArray (own update ''divides'') \<and>
          list_all (array_includes one_two_three) (elements (own update ''divides''))
        else if ty = JStr ''sequence_all'' then
          isArray (own update ''states'') \<and>
          list_all (\<lambda>row. isArray row \<and> list_all is_boolean (elements row))
            (elements (own update ''states''))
        else if ty = JStr ''note_all'' then
          isArray (own update ''notes'') \<and>
          list_all (\<lambda>row. isArray row \<and> list_all (number_between 0 127) (elements row))
            (elements (own update ''notes''))
        else if ty = JStr ''divide_all'' then
          isArray (own update ''divides'') \<and>
          list_all (\<lambda>row. isArray row \<and> list_all (array_includes one_two_three) (elements row))
            (elements (own update ''divides''))
        else False))"

definition isBatchUpdateArgs :: "jsval \<Rightarrow> js_exn + bool" where
  "isBatchUpdateArgs args =
     (if nullish args then Inl TypeError
      else if \<not> isArray (own args ''updates'') then Inr False
      else every checkUpdate (elements (own args ''updates'')))"

definition isSendPresetArgs :: "jsval \<Rightarrow> js_exn + bool" where
  "isSendPresetArgs args =
     (if nullish args then Inl TypeError else Inr (is_string (own args ''preset'')))"

definition isChangeMidiOutputArgs :: "jsval \<Rightarrow> js_exn + bool" where
  "isChangeMidiOutputArgs args =
     (if nullish args then Inl TypeError else Inr (is_string (own args ''port'')))"

definition isChangeMidiInputArgs :: "jsval \<Rightarrow> js_exn + bool" where
  "isChangeMidiInputArgs args =
     (if nullish args then Inl TypeError else Inr (is_string (own args ''port'')))"

definition isToggleMidiClockArgs :: "jsval \<Rightarrow> js_exn + bool" where
  "isToggleMidiClockArgs args =
     (if nullish args then Inl TypeError else Inr (is_boolean (own args ''enabled'')))"

definition validTracks :: "jsval list" where
  "validTracks = [JStr ''PU1'', JStr ''PU2'', JStr ''WAV'', JStr ''NOISE'', JStr ''POLY'']"

text \<open>\<^verbatim>\<open>/^cc\d+$/.test(s)\<close>: the letters cc, then one or more of the digits 0 to 9, and
  nothing else.\<close>

definition is_digit :: "char \<Rightarrow> bool" where
  "is_digit c = (c \<in> set ''0123456789'')"

fun cc_pattern :: "string \<Rightarrow> bool" where
  "cc_pattern (c1 # c2 # ds) = (c1 = CHR ''c'' \<and> c2 = CHR ''c'' \<and> ds \<noteq> [] \<and> list_all is_digit ds)"
| "cc_pattern _ = False"

fun isValidCC :: "jsval \<Rightarrow> bool" where
  "isValidCC (JStr s) = cc_pattern s"
| "isValidCC (JNum n) = (num_ge n 0 \<and> num_le n 127)"
| "isValidCC _ = False"

definition isUpdateCcArgs :: "jsval \<Rightarrow> js_exn + bool" where
  "isUpdateCcArgs args =
     (if nullish args then Inl TypeError
      else Inr (array_includes validTracks (own args ''track'') \<and>
                isValidCC (own args ''cc'') \<and>
                number_between 0 127 (own args ''value'')))"

section \<open>The bridge of index.ts\<close>

subsection \<open>Messages\<close>

text \<open>
  \<^verbatim>\<open>WsResponse\<close> (its \<^verbatim>\<open>type\<close> is the constant "response") and \<^verbatim>\<open>WsCommand\<close>: the
  command name and the other properties of the object literal, in the order written.
\<close>

datatype response_status = Success | Error

record WsResponse =
  status :: response_status
  data :: "jsval option"
  message :: "string option"

record WsCommand =
  command :: string
  properties :: "(string \<times> jsval) list"

text \<open>
  \<^verbatim>\<open>MgbState\<close> (its \<^verbatim>\<open>type\<close> is the constant "state"). The two levels of
  \<^verbatim>\<open>cc_values\<close> are dictionaries. The message handler tests
  \<^verbatim>\<open>currentState.cc_values\<close> before it uses it, so a snapshot without the field is
  provided for: \<open>None\<close>.
\<close>

record MgbState =
  is_playing :: bool
  bpm :: jsnum
  current_step :: jsnum
  sequence :: "bool list list"
  note_values :: "jsnum list list"
  midi_output :: string
  midi_input :: string
  midi_clock_enabled :: bool
  cc_values :: "(string \<rightharpoonup> (string \<rightharpoonup> jsnum)) option"

text \<open>\<^verbatim>\<open>CcUpdateNotification\<close> declares \<^verbatim>\<open>cc: string | number\<close>.\<close>

datatype cc_id = CcNumber jsnum | CcString string

text \<open>
  What the message handler tells apart in a payload, with the fields the interfaces of
  types.ts declare: a payload that \<^verbatim>\<open>JSON.parse\<close> rejects or whose \<^verbatim>\<open>type\<close> cannot
  be read (the handler's catch logs it), the three known types, and any other type.
  The handler casts and does not check the fields; the model covers the payloads that
  have the declared shape.
\<close>

datatype inbound =
    Unparsable
  | StateMsg MgbState
  | ResponseMsg WsResponse
  | CcUpdateMsg string cc_id jsnum
  | OtherMsg

subsection \<open>The connection and the cache\<close>

text \<open>
  The three module variables \<^verbatim>\<open>wsClient\<close> (the live socket, numbered by creation),
  \<^verbatim>\<open>isConnected\<close> and \<^verbatim>\<open>currentState\<close>, and what the process has done to its
  environment: the commands handed to \<^verbatim>\<open>wsClient.send\<close>, oldest first, the delays of
  the \<^verbatim>\<open>setTimeout\<close> calls that will run \<^verbatim>\<open>connectToMgb\<close>, in milliseconds, and the
  number of sockets created.
\<close>

record bridge =
  wsClient :: "nat option"
  isConnected :: bool
  currentState :: "MgbState option"
  wire :: "WsCommand list"
  timers :: "int list"
  sockets :: nat

text \<open>
  What \<^verbatim>\<open>JSON.stringify(command)\<close> and \<^verbatim>\<open>wsClient.send\<close> do is the environment's
  choice: the text is written, or one of them throws. The handler reads a thrown value as
  \<^verbatim>\<open>e instanceof Error ? e.message : String(e)\<close>.
\<close>

datatype thrown = ErrorInstance string | NotAnError string

datatype write_outcome = Written | Threw thrown

fun cause :: "thrown \<Rightarrow> string" where
  "cause (ErrorInstance m) = m"
| "cause (NotAnError s) = s"

text \<open>
  \<^verbatim>\<open>sendCommand\<close>. The executor of the promise runs inside the call and resolves on
  each of its paths, so the response is there when the call returns and the promise
  never rejects.
\<close>

definition sendCommand :: "write_outcome \<Rightarrow> bridge \<Rightarrow> WsCommand \<Rightarrow> bridge \<times> WsResponse" where
  "sendCommand w s c =
     (if \<not> isConnected s \<or> wsClient s = None then
        (s, \<lparr>status = Error, data = None,
             message = Some ''Not connected to mGB MIDI sequencer''\<rparr>)
      else
        case w of
          Written \<Rightarrow>
            (s\<lparr>wire := wire s @ [c]\<rparr>,
             \<lparr>status = Success, data = Some (JObj [(''command'', JStr (command c))]),
              message = None\<rparr>)
        | Threw e \<Rightarrow>
            (s, \<lparr>status = Error, data = None,
                 message = Some (''Error sending command: '' @ cause e)\<rparr>))"

text \<open>\<^verbatim>\<open>connectToMgb\<close>: the previous socket is terminated (errors ignored) and a new
  one takes its place.\<close>

definition connectToMgb :: "bridge \<Rightarrow> bridge" where
  "connectToMgb s = s\<lparr>wsClient := Some (sockets s), sockets := Suc (sockets s)\<rparr>"

text \<open>The handlers of the socket's events. On open the initial state is requested; the
  response is only logged.\<close>

definition on_open :: "write_outcome \<Rightarrow> bridge \<Rightarrow> bridge" where
  "on_open w s =
     fst (sendCommand w (s\<lparr>isConnected := True\<rparr>) \<lparr>command = ''get_state'', properties = []\<rparr>)"

definition on_error :: "bridge \<Rightarrow> bridge" where
  "on_error s = s\<lparr>isConnected := False\<rparr>"

text \<open>
  \<^verbatim>\<open>Math.random()\<close> returns a double that is at least 0 and below 1. The doubles of that
  range are the quotients \<open>m / 2^k\<close> with \<open>m < 2^53\<close>, \<open>k \<le> 1074\<close> and \<open>m < 2^k\<close>: a
  significand of at most 53 bits over a power of two down to the smallest subnormal.
\<close>

record unit_double =
  significand :: nat
  scale :: nat

definition value_of :: "unit_double \<Rightarrow> real" where
  "value_of d = real (significand d) / 2 ^ scale d"

definition is_random :: "unit_double \<Rightarrow> bool" where
  "is_random d =
     (significand d < 2 ^ 53 \<and> scale d \<le> 1074 \<and> significand d < 2 ^ scale d)"

text \<open>
  \<^verbatim>\<open>Math.random() * 3000\<close> is the product of two doubles: the exact product
  \<open>3000 * m / 2^k\<close> rounded to the nearest double, a tie going to the even significand.
  The integer \<open>M = 3000 * m\<close> has \<open>excess_bits M\<close> bits more than the 53 a double keeps;
  \<open>round_to_53\<close> drops them with that rounding, and the product is
  \<open>round_to_53 M / 2^k\<close>. (Nothing is dropped from a subnormal result: when bits are
  dropped, \<open>M\<close> is at least \<open>2^53\<close> and the product at least \<open>2^-1021\<close>.)
\<close>

function excess_bits :: "nat \<Rightarrow> nat" where
  "excess_bits M = (if M < 2 ^ 53 then 0 else Suc (excess_bits (M div 2)))"
  by pat_completeness auto
termination
  by (relation "measure (\<lambda>M. M)") auto

definition round_to_53 :: "nat \<Rightarrow> nat" where
  "round_to_53 M =
     (let s = excess_bits M; q = M div 2 ^ s; rest = M mod 2 ^ s
      in if 2 ^ s < 2 * rest \<or> (2 * rest = 2 ^ s \<and> odd q)
         then (q + 1) * 2 ^ s
         else q * 2 ^ s)"

text \<open>
  \<^verbatim>\<open>5000 + Math.floor(Math.random() * 3000)\<close>, where \<open>d\<close> is the double
  \<^verbatim>\<open>Math.random()\<close> returned to this call. The floor of the product
  \<open>round_to_53 M / 2^k\<close> is the integer quotient, and the sum of two small integers is
  exact.
\<close>

definition reconnectDelay :: "unit_double \<Rightarrow> int" where
  "reconnectDelay d =
     5000 + int (round_to_53 (3000 * significand d) div 2 ^ scale d)"

definition on_close :: "unit_double \<Rightarrow> bridge \<Rightarrow> bridge" where
  "on_close d s = s\<lparr>isConnected := False, timers := timers s @ [reconnectDelay d]\<rparr>"

subsection \<open>The cc_update branch of the message handler\<close>

text \<open>
  The template \<^verbatim>\<open>`cc${message.cc}`\<close> renders the number with Number::toString, which
  prints the shortest decimal digits that read back as the same double. For an integer
  below \<open>2^53\<close> in absolute value (where every integer is a double of its own) these
  are its decimal digits, with a minus sign for a negative one. For every other finite
  number the digits are the engine's, taken as the parameter \<open>shortest\<close>.
\<close>

definition digit_char :: "nat \<Rightarrow> char" where
  "digit_char d = ''0123456789'' ! d"

fun decimal :: "nat \<Rightarrow> string" where
  "decimal n = (if n < 10 then [digit_char n] else decimal (n div 10) @ [digit_char (n mod 10)])"

definition Number_toString :: "(real \<Rightarrow> string) \<Rightarrow> jsnum \<Rightarrow> string" where
  "Number_toString shortest n =
     (case n of
        Finite r \<Rightarrow>
          if r = of_int \<lfloor>r\<rfloor> \<and> \<bar>r\<bar> < 2 ^ 53
          then (if r < 0 then ''-'' else []) @ decimal (nat \<bar>\<lfloor>r\<rfloor>\<bar>)
          else shortest r
      | NaN \<Rightarrow> ''NaN''
      | PosInfinity \<Rightarrow> ''Infinity''
      | NegInfinity \<Rightarrow> ''-Infinity'')"

text \<open>\<^verbatim>\<open>typeof message.cc === 'number' ? `cc${message.cc}` : message.cc\<close>\<close>

definition ccKey_of :: "(real \<Rightarrow> string) \<Rightarrow> cc_id \<Rightarrow> string" where
  "ccKey_of shortest c =
     (case c of
        CcNumber n \<Rightarrow> ''cc'' @ Number_toString shortest n
      | CcString k \<Rightarrow> k)"

text \<open>The names every object inherits from \<^verbatim>\<open>Object.prototype\<close>.\<close>

definition Object_prototype_names :: "string list" where
  "Object_prototype_names =
     [''constructor'', ''__proto__'', ''hasOwnProperty'', ''isPrototypeOf'',
      ''propertyIsEnumerable'', ''toLocaleString'', ''toString'', ''valueOf'',
      ''__defineGetter__'', ''__defineSetter__'', ''__lookupGetter__'', ''__lookupSetter__'']"

text \<open>
  The body of the branch, for a cache \<open>st\<close> that is there:
  \<^verbatim>\<open>if (currentState.cc_values) {
    if (!currentState.cc_values[message.track]) currentState.cc_values[message.track] = {};
    const ccKey = ...;
    currentState.cc_values[message.track][ccKey] = message.value; }\<close>
  The result is \<open>None\<close> where the assignment leaves the cache: when the track is not a
  key of \<^verbatim>\<open>cc_values\<close> and names an inherited member (the read finds the built-in
  object and the write goes to it), and when the key is \<^verbatim>\<open>__proto__\<close> and not yet a key
  of the track's dictionary (the write goes to the inherited setter).
\<close>

definition applyCcUpdate ::
  "(real \<Rightarrow> string) \<Rightarrow> MgbState \<Rightarrow> string \<Rightarrow> cc_id \<Rightarrow> jsnum \<Rightarrow> MgbState option"
where
  "applyCcUpdate shortest st track cc v =
     (case cc_values st of
        None \<Rightarrow> Some st
      | Some ccv \<Rightarrow>
          if ccv track = None \<and> track \<in> set Object_prototype_names then None
          else
            let inner = (case ccv track of None \<Rightarrow> Map.empty | Some d \<Rightarrow> d);
                ccKey = ccKey_of shortest cc
            in if ccKey = ''__proto__'' \<and> inner ccKey = None then None
               else Some (st\<lparr>cc_values := Some (ccv(track \<mapsto> inner(ccKey \<mapsto> v)))\<rparr>))"

text \<open>
  The message handler. A snapshot replaces the cache; a response is logged; a cc_update
  is applied when a cache is there and logged otherwise; anything else is logged and
  dropped.
\<close>

definition on_message :: "(real \<Rightarrow> string) \<Rightarrow> bridge \<Rightarrow> inbound \<Rightarrow> bridge option" where
  "on_message shortest s m =
     (case m of
        Unparsable \<Rightarrow> Some s
      | StateMsg st \<Rightarrow> Some (s\<lparr>currentState := Some st\<rparr>)
      | ResponseMsg r \<Rightarrow> Some s
      | CcUpdateMsg track cc v \<Rightarrow>
          (case currentState s of
             None \<Rightarrow> Some s
           | Some st \<Rightarrow>
               map_option (\<lambda>st'. s\<lparr>currentState := Some st'\<rparr>)
                 (applyCcUpdate shortest st track cc v))
      | OtherMsg \<Rightarrow> Some s)"

subsection \<open>Texts and errors of the handlers\<close>

text \<open>
  A text the handlers build is kept as the parts of its template: a literal, a
  substitution \<^verbatim>\<open>${v}\<close> (the engine renders the value), \<^verbatim>\<open>JSON.stringify(v, null, 2)\<close>
  of a value or of the cached state, and the message of a caught exception.
\<close>

datatype piece =
    Lit string
  | Sub jsval
  | Stringify jsval
  | StringifyState MgbState
  | Caught js_exn

type_synonym template = "piece list"

datatype ErrorCode = InvalidRequest | MethodNotFound | InvalidParams | InternalError

datatype McpError = McpError ErrorCode template

text \<open>What a handler's body can throw: an McpError of its own, or a JavaScript
  exception.\<close>

datatype raised = Mcp McpError | Js js_exn

text \<open>Truthiness, and the optional chain \<^verbatim>\<open>response.data?.k\<close>.\<close>

fun truthy :: "jsval \<Rightarrow> bool" where
  "truthy JUndefined = False"
| "truthy JNull = False"
| "truthy (JBool b) = b"
| "truthy (JNum (Finite r)) = (r \<noteq> 0)"
| "truthy (JNum NaN) = False"
| "truthy (JNum _) = True"
| "truthy (JStr s) = (s \<noteq> [])"
| "truthy (JArr _) = True"
| "truthy (JObj _) = True"

definition datum :: "WsResponse \<Rightarrow> string \<Rightarrow> jsval" where
  "datum response k =
     (case data response of
        None \<Rightarrow> JUndefined
      | Some d \<Rightarrow> if nullish d then JUndefined else own d k)"

text \<open>\<^verbatim>\<open>response.message || fallback\<close>: the fallback also stands in for an empty
  message.\<close>

definition message_or :: "WsResponse \<Rightarrow> string \<Rightarrow> string" where
  "message_or response fallback =
     (case message response of
        None \<Rightarrow> fallback
      | Some m \<Rightarrow> if m = [] then fallback else m)"

text \<open>The reply every awaiting tool gives to an error response, and \<open>t\<close> otherwise.\<close>

definition reply :: "WsResponse \<Rightarrow> template \<Rightarrow> template" where
  "reply response t =
     (if status response = Error
      then [Lit ''Error: '', Lit (message_or response ''Unknown error'')]
      else t)"

text \<open>
  The guard every validating tool starts with:
  \<^verbatim>\<open>if (!isXArgs(request.params.arguments)) throw new McpError(InvalidParams, msg)\<close>.
  An exception of the validator leaves the case before anything is sent.
\<close>

definition guarded ::
  "bridge \<Rightarrow> js_exn + bool \<Rightarrow> string \<Rightarrow> bridge \<times> (raised + template) \<Rightarrow> bridge \<times> (raised + template)"
where
  "guarded s verdict msg continue =
     (case verdict of
        Inl e \<Rightarrow> (s, Inl (Js e))
      | Inr ok \<Rightarrow> if ok then continue else (s, Inl (Mcp (McpError InvalidParams [Lit msg]))))"

text \<open>
  A substitution \<^verbatim>\<open>${v}\<close> converts \<open>v\<close> to a string. A primitive always converts. An
  object converts through its \<^verbatim>\<open>toString\<close> and then its \<^verbatim>\<open>valueOf\<close>: a parsed object
  with no property of its own named \<^verbatim>\<open>toString\<close> inherits the one that answers
  "[object Object]"; with such a property, which is never a function, the inherited
  \<^verbatim>\<open>valueOf\<close> returns the object itself (and an own \<^verbatim>\<open>valueOf\<close> is no function either),
  and the conversion throws a TypeError. An array joins the conversions of its elements,
  \<^verbatim>\<open>undefined\<close> and \<^verbatim>\<open>null\<close> counting as empty, so it throws when one of them does.
\<close>

fun converts :: "jsval \<Rightarrow> bool" where
  "converts (JObj fs) = (map_of fs ''toString'' = None)"
| "converts (JArr xs) = list_all converts xs"
| "converts _ = True"

fun piece_converts :: "piece \<Rightarrow> bool" where
  "piece_converts (Sub v) = converts v"
| "piece_converts _ = True"

text \<open>Building the text of a reply: it is there when every substitution converts, and
  the TypeError of the conversion is thrown otherwise.\<close>

definition built :: "template \<Rightarrow> raised + template" where
  "built t = (if list_all piece_converts t then Inr t else Inl (Js TypeError))"

text \<open>\<^verbatim>\<open>await this.sendCommand(c)\<close> followed by the reply built from the response.\<close>

definition awaited ::
  "write_outcome \<Rightarrow> bridge \<Rightarrow> WsCommand \<Rightarrow> (WsResponse \<Rightarrow> template) \<Rightarrow> bridge \<times> (raised + template)"
where
  "awaited w s c t =
     (case sendCommand w s c of (s', response) \<Rightarrow> (s', built (reply response (t response))))"

subsection \<open>The tool dispatcher\<close>

text \<open>The names the ListTools handler declares.\<close>

definition declared_tools :: "string list" where
  "declared_tools =
     [''toggle_play'', ''set_bpm'', ''toggle_step'', ''set_note'', ''send_preset'',
      ''batch_update'', ''get_midi_ports'', ''change_midi_output'', ''change_midi_input'',
      ''toggle_midi_clock'', ''update_cc'']"

text \<open>
  The switch of the CallTool handler, inside its \<^verbatim>\<open>try\<close>. \<open>args\<close> is
  \<^verbatim>\<open>request.params.arguments\<close>, which is \<^verbatim>\<open>undefined\<close> when the request carries no
  arguments. The two cases \<^verbatim>\<open>update_cc\<close> and \<^verbatim>\<open>update_synth_param\<close> call
  \<^verbatim>\<open>sendCommand\<close> and drop its response; they build their text after the call, so a
  conversion that throws leaves the command sent.
\<close>

definition callTool_body ::
  "write_outcome \<Rightarrow> bridge \<Rightarrow> string \<Rightarrow> jsval \<Rightarrow> bridge \<times> (raised + template)"
where
  "callTool_body w s name args =
     (if name = ''toggle_play'' then
        awaited w s \<lparr>command = ''toggle_play'', properties = []\<rparr>
          (\<lambda>response. [Lit ''Playback '',
             Lit (if truthy (datum response ''is_playing'') then ''started'' else ''stopped'')])
      else if name = ''set_bpm'' then
        guarded s (isSetBpmArgs args) ''Invalid BPM arguments''
          (awaited w s \<lparr>command = ''set_bpm'', properties = [(''bpm'', own args ''bpm'')]\<rparr>
             (\<lambda>response. [Lit ''BPM set to '', Sub (datum response ''bpm'')]))
      else if name = ''toggle_step'' then
        guarded s (isToggleStepArgs args) ''Invalid toggle step arguments''
          (awaited w s
             \<lparr>command = ''toggle_step'',
              properties = [(''row'', own args ''row''), (''col'', own args ''col'')]\<rparr>
             (\<lambda>response. [Lit ''Step ['', Sub (datum response ''row''), Lit '', '',
                Sub (datum response ''col''), Lit ''] set to '',
                Lit (if truthy (datum response ''value'') then ''ON'' else ''OFF'')]))
      else if name = ''set_note'' then
        guarded s (isSetNoteArgs args) ''Invalid set note arguments''
          (awaited w s
             \<lparr>command = ''set_note'',
              properties =
                [(''row'', own args ''row''), (''col'', own args ''col''),
                 (''note'', own args ''note'')] @
                (if own args ''divide'' \<noteq> JUndefined then [(''divide'', own args ''divide'')]
                 else [])\<rparr>
             (\<lambda>response. [Lit ''Note at ['', Sub (datum response ''row''), Lit '', '',
                Sub (datum response ''col''), Lit ''] set to '', Sub (datum response ''note'')] @
                (if truthy (datum response ''divide'')
                 then [Lit '' with division '', Sub (datum response ''divide'')] else [])))
      else if name = ''send_preset'' then
        guarded s (isSendPresetArgs args) ''Invalid preset arguments''
          (awaited w s
             \<lparr>command = ''send_preset'', properties = [(''preset'', own args ''preset'')]\<rparr>
             (\<lambda>response. [Lit (''Preset '' @ [CHR 0x22]), Sub (datum response ''preset''),
                Lit (CHR 0x22 # '' applied successfully'')]))
      else if name = ''batch_update'' then
        guarded s (isBatchUpdateArgs args) ''Invalid batch update arguments''
          (awaited w s
             \<lparr>command = ''batch_update'', properties = [(''updates'', own args ''updates'')]\<rparr>
             (\<lambda>response. [Lit ''Batch update completed successfully'']))
      else if name = ''get_midi_ports'' then
        awaited w s \<lparr>command = ''get_available_ports'', properties = []\<rparr>
          (\<lambda>response. [Stringify (case data response of None \<Rightarrow> JUndefined | Some d \<Rightarrow> d)])
      else if name = ''change_midi_output'' then
        guarded s (isChangeMidiOutputArgs args) ''Invalid MIDI output arguments''
          (awaited w s
             \<lparr>command = ''change_midi_output'', properties = [(''port'', own args ''port'')]\<rparr>
             (\<lambda>response. [Lit ''MIDI output changed to '', Sub (datum response ''port'')]))
      else if name = ''change_midi_input'' then
        guarded s (isChangeMidiInputArgs args) ''Invalid MIDI input arguments''
          (awaited w s
             \<lparr>command = ''change_midi_input'', properties = [(''port'', own args ''port'')]\<rparr>
             (\<lambda>response. [Lit ''MIDI input changed to '', Sub (datum response ''port'')]))
      else if name = ''toggle_midi_clock'' then
        guarded s (isToggleMidiClockArgs args) ''Invalid MIDI clock arguments''
          (awaited w s
             \<lparr>command = ''toggle_midi_clock'',
              properties = [(''enabled'', own args ''enabled'')]\<rparr>
             (\<lambda>response. [Lit ''MIDI clock '',
                Lit (if truthy (datum response ''midi_clock_enabled'') then ''enabled''
                     else ''disabled'')]))
      else if name = ''update_cc'' then
        guarded s (isUpdateCcArgs args) ''Invalid control change arguments''
          (fst (sendCommand w s
                  \<lparr>command = ''update_cc'',
                   properties = [(''track'', own args ''track''), (''cc'', own args ''cc''),
                                 (''value'', own args ''value'')]\<rparr>),
           built [Lit ''CC update sent for '', Sub (own args ''track''), Lit '' '',
                  Sub (own args ''cc''), Lit '' = '', Sub (own args ''value'')])
      else if name = ''update_synth_param'' then
        (if nullish args then (s, Inl (Js TypeError))
         else
           (fst (sendCommand w s
                   \<lparr>command = ''update_cc'',
                    properties = [(''track'', own args ''track''), (''cc'', own args ''param''),
                                  (''value'', own args ''value'')]\<rparr>),
            built [Lit ''Synth parameter update sent for '', Sub (own args ''track''), Lit '' '',
                   Sub (own args ''param''), Lit '' = '', Sub (own args ''value'')]))
      else (s, Inl (Mcp (McpError MethodNotFound [Lit ''Unknown tool: '', Lit name]))))"

text \<open>The handler with its \<^verbatim>\<open>catch\<close>: an McpError is thrown on, anything else is
  wrapped into an InternalError.\<close>

definition callTool ::
  "write_outcome \<Rightarrow> bridge \<Rightarrow> string \<Rightarrow> jsval \<Rightarrow> bridge \<times> (McpError + template)"
where
  "callTool w s name args =
     (case callTool_body w s name args of
        (s', Inr t) \<Rightarrow> (s', Inr t)
      | (s', Inl (Mcp e)) \<Rightarrow> (s', Inl e)
      | (s', Inl (Js x)) \<Rightarrow>
          (s', Inl (McpError InternalError [Lit ''Error calling mGB API: '', Caught x])))"

subsection \<open>The state resource\<close>

text \<open>The object literal the handler serialises when it has no state to show.\<close>

definition default_document :: "string \<Rightarrow> jsval" where
  "default_document err =
     JObj [(''is_playing'', JBool False),
           (''bpm'', JNum (Finite 120)),
           (''current_step'', JNum (Finite 0)),
           (''sequence'', JArr []),
           (''note_values'', JArr []),
           (''midi_output'', JStr []),
           (''midi_input'', JStr []),
           (''midi_clock_enabled'', JBool False),
           (''cc_values'', JObj []),
           (''_error'', JStr err)]"

record resource_contents =
  uri :: string
  mimeType :: string
  body :: template

text \<open>
  The ReadResource handler. With no cached state it sends \<^verbatim>\<open>get_state\<close> and awaits
  the response. \<^verbatim>\<open>sendCommand\<close> never rejects, so the handler's \<^verbatim>\<open>catch\<close> is not
  reached; the await resumes before any event of the socket is handled, so the second
  test of \<^verbatim>\<open>currentState\<close> reads what the first one read, unless the call changed it.
\<close>

definition readResource ::
  "write_outcome \<Rightarrow> bridge \<Rightarrow> string \<Rightarrow> bridge \<times> (McpError + resource_contents)"
where
  "readResource w s u =
     (if u \<noteq> ''mgb://state'' then
        (s, Inl (McpError InvalidRequest [Lit ''Unknown resource: '', Lit u]))
      else
        case currentState s of
          Some st \<Rightarrow>
            (s, Inr \<lparr>uri = u, mimeType = ''application/json'', body = [StringifyState st]\<rparr>)
        | None \<Rightarrow>
            (case sendCommand w s \<lparr>command = ''get_state'', properties = []\<rparr> of
               (s', response) \<Rightarrow>
                 if status response = Error then
                   (s', Inr \<lparr>uri = u, mimeType = ''application/json'',
                            body = [Stringify (default_document
                              (message_or response ''Failed to connect to mGB MIDI sequencer''))]\<rparr>)
                 else
                   (case currentState s' of
                      None \<Rightarrow>
                        (s', Inr \<lparr>uri = u, mimeType = ''application/json'',
                                 body = [Stringify (default_document
                                   ''mGB state is not available'')]\<rparr>)
                    | Some st \<Rightarrow>
                        (s', Inr \<lparr>uri = u, mimeType = ''application/json'',
                                 body = [StringifyState st]\<rparr>))))"

subsection \<open>The process at start\<close>

text \<open>The module variables as they are initialised; the constructor of
  \<^verbatim>\<open>MgbServer\<close> then calls \<^verbatim>\<open>connectToMgb\<close>.\<close>

definition initial :: bridge where
  "initial = \<lparr>wsClient = None, isConnected = False, currentState = None,
              wire = [], timers = [], sockets = 0\<rparr>"

section \<open>The specification's view\<close>

text \<open>
  The batch items as section 3 of the specification tabulates them: nine variants, one
  for each granularity (cell, row, grid) and each attribute (on/off state, note pitch,
  rhythmic division). A cell item carries \<^verbatim>\<open>row\<close>, \<^verbatim>\<open>col\<close> and one attribute value,
  a row item \<^verbatim>\<open>row\<close> and a list of values, a grid item a list of lists of values.

  The table is read in two ways. As specified: \<^verbatim>\<open>row\<close> and \<^verbatim>\<open>col\<close> index the
  rectangular grid \<^verbatim>\<open>sequence[track][step]\<close>, so they are whole numbers from 0; a state is
  a boolean; a note is an integer from 0 to 127, as the data model gives the note values;
  a division is one of 1, 2, 3. As checked, which is the wider reading: \<^verbatim>\<open>row\<close> and
  \<^verbatim>\<open>col\<close> are numbers of any kind, and a note is any number from 0 to 127, fractions
  included.
\<close>

datatype granularity = Cell | Row | Grid

datatype attribute = OnOff | Pitch | Division

datatype reading = Specified | Checked

definition variants :: "(string \<times> granularity \<times> attribute) list" where
  "variants =
     [(''sequence'', Cell, OnOff), (''note'', Cell, Pitch), (''divide'', Cell, Division),
      (''sequence_row'', Row, OnOff), (''note_row'', Row, Pitch), (''divide_row'', Row, Division),
      (''sequence_all'', Grid, OnOff), (''note_all'', Grid, Pitch), (''divide_all'', Grid, Division)]"

fun grid_index :: "reading \<Rightarrow> jsval \<Rightarrow> bool" where
  "grid_index Specified v =
     (case v of JNum (Finite r) \<Rightarrow> 0 \<le> r \<and> r = of_int \<lfloor>r\<rfloor> | _ \<Rightarrow> False)"
| "grid_index Checked v = (case v of JNum _ \<Rightarrow> True | _ \<Rightarrow> False)"

fun attribute_ok :: "reading \<Rightarrow> attribute \<Rightarrow> jsval \<Rightarrow> bool" where
  "attribute_ok rd OnOff v = (v = JBool True \<or> v = JBool False)"
| "attribute_ok Specified Pitch v =
     (case v of JNum (Finite r) \<Rightarrow> 0 \<le> r \<and> r \<le> 127 \<and> r = of_int \<lfloor>r\<rfloor> | _ \<Rightarrow> False)"
| "attribute_ok Checked Pitch v =
     (case v of JNum (Finite r) \<Rightarrow> 0 \<le> r \<and> r \<le> 127 | _ \<Rightarrow> False)"
| "attribute_ok rd Division v =
     (v = JNum (Finite 1) \<or> v = JNum (Finite 2) \<or> v = JNum (Finite 3))"

fun attribute_field :: "granularity \<Rightarrow> attribute \<Rightarrow> string" where
  "attribute_field Cell OnOff = ''state''"
| "attribute_field Cell Pitch = ''note''"
| "attribute_field Cell Division = ''divide''"
| "attribute_field _ OnOff = ''states''"
| "attribute_field _ Pitch = ''notes''"
| "attribute_field _ Division = ''divides''"

fun list_of :: "(jsval \<Rightarrow> bool) \<Rightarrow> jsval \<Rightarrow> bool" where
  "list_of P (JArr xs) = list_all P xs"
| "list_of P _ = False"

definition has_field :: "(string \<times> jsval) list \<Rightarrow> string \<Rightarrow> (jsval \<Rightarrow> bool) \<Rightarrow> bool" where
  "has_field fs k P = (case map_of fs k of None \<Rightarrow> False | Some v \<Rightarrow> P v)"

fun variant_schema ::
  "reading \<Rightarrow> granularity \<Rightarrow> attribute \<Rightarrow> (string \<times> jsval) list \<Rightarrow> bool"
where
  "variant_schema rd Cell a fs =
     (has_field fs ''row'' (grid_index rd) \<and> has_field fs ''col'' (grid_index rd) \<and>
      has_field fs (attribute_field Cell a) (attribute_ok rd a))"
| "variant_schema rd Row a fs =
     (has_field fs ''row'' (grid_index rd) \<and>
      has_field fs (attribute_field Row a) (list_of (attribute_ok rd a)))"
| "variant_schema rd Grid a fs =
     has_field fs (attribute_field Grid a) (list_of (list_of (attribute_ok rd a)))"

definition conforms :: "reading \<Rightarrow> jsval \<Rightarrow> bool" where
  "conforms rd item =
     (case item of
        JObj fs \<Rightarrow>
          (case map_of fs ''type'' of
             Some (JStr t) \<Rightarrow>
               (case map_of variants t of
                  Some (g, a) \<Rightarrow> variant_schema rd g a fs
                | None \<Rightarrow> False)
           | _ \<Rightarrow> False)
      | _ \<Rightarrow> False)"

text \<open>An item matches its variant's schema when it conforms to the table as specified;
  it passes the checks when it conforms to the table in the wider reading.\<close>

definition matches_schema :: "jsval \<Rightarrow> bool" where
  "matches_schema item = conforms Specified item"

definition passes_checks :: "jsval \<Rightarrow> bool" where
  "passes_checks item = conforms Checked item"

text \<open>The decimal numeral a string of digits denotes.\<close>

definition digit_value :: "char \<Rightarrow> nat" where
  "digit_value c = of_char c - 48"

definition read_decimal :: "string \<Rightarrow> nat" where
  "read_decimal ds = foldl (\<lambda>a c. 10 * a + digit_value c) 0 ds"

text \<open>The operation surface as section 6 of the specification lists it.\<close>

definition spec_operation_surface :: "string list" where
  "spec_operation_surface =
     [''toggle_play'', ''set_bpm'', ''toggle_step'', ''set_note'', ''send_preset'',
      ''batch_update'', ''get_midi_ports'', ''change_midi_output'', ''change_midi_input'',
      ''toggle_midi_clock'', ''update_cc'']"

section \<open>Properties\<close>

subsection \<open>set_bpm accepts the tempi from 60 to 300\<close>

lemma own_number_not_nullish: "own args k = JNum n \<Longrightarrow> \<not> nullish args"
  by (cases args) (simp_all add: nullish_def)

text \<open>
  C9. Whenever the argument's \<^verbatim>\<open>bpm\<close> is a number, \<^verbatim>\<open>isSetBpmArgs\<close> answers without
  throwing, and it accepts exactly the finite numbers from 60 to 300, both bounds
  included; NaN and the infinities are rejected.
\<close>

theorem isSetBpmArgs_bounds:
  assumes "own args ''bpm'' = JNum n"
  shows "isSetBpmArgs args = Inr (\<exists>b. n = Finite b \<and> 60 \<le> b \<and> b \<le> 300)"
proof -
  have "\<not> nullish args"
    using assms by (rule own_number_not_nullish)
  moreover have "(num_ge n 60 \<and> num_le n 300) = (\<exists>b. n = Finite b \<and> 60 \<le> b \<and> b \<le> 300)"
    by (cases n) simp_all
  ultimately show ?thesis
    using assms by (simp add: isSetBpmArgs_def)
qed

text \<open>The bounds 60 and 300 are accepted, 59 and 301 are rejected.\<close>

theorem isSetBpmArgs_bounds_witness:
  "isSetBpmArgs (JObj [(''bpm'', JNum (Finite 60))]) = Inr True \<and>
   isSetBpmArgs (JObj [(''bpm'', JNum (Finite 300))]) = Inr True \<and>
   isSetBpmArgs (JObj [(''bpm'', JNum (Finite 59))]) = Inr False \<and>
   isSetBpmArgs (JObj [(''bpm'', JNum (Finite 301))]) = Inr False"
  using isSetBpmArgs_bounds [of "JObj [(''bpm'', JNum (Finite 60))]" "Finite 60"]
        isSetBpmArgs_bounds [of "JObj [(''bpm'', JNum (Finite 300))]" "Finite 300"]
        isSetBpmArgs_bounds [of "JObj [(''bpm'', JNum (Finite 59))]" "Finite 59"]
        isSetBpmArgs_bounds [of "JObj [(''bpm'', JNum (Finite 301))]" "Finite 301"]
  by simp

subsection \<open>Where the validators answer and where they throw\<close>

lemma every_total:
  "(\<And>x. x \<in> set xs \<Longrightarrow> \<exists>b. f x = Inr b) \<Longrightarrow> \<exists>b. every f xs = Inr b"
proof (induction xs)
  case Nil
  show ?case by auto
next
  case (Cons x xs)
  from Cons.prems [of x] obtain b where b: "f x = Inr b"
    by auto
  from Cons.IH Cons.prems obtain b' where "every f xs = Inr b'"
    by auto
  with b show ?case
    by (cases b) auto
qed

lemma checkUpdate_total: "\<not> nullish u \<Longrightarrow> \<exists>b. checkUpdate u = Inr b"
  by (auto simp: checkUpdate_def)

text \<open>
  C5, as amended. On \<^verbatim>\<open>undefined\<close> and on \<^verbatim>\<open>null\<close> each of the nine validators throws
  a TypeError. On every other input each of them returns a boolean verdict and does not
  throw; for \<^verbatim>\<open>isBatchUpdateArgs\<close> this holds provided no element of \<^verbatim>\<open>updates\<close> is
  \<^verbatim>\<open>undefined\<close> or \<^verbatim>\<open>null\<close>.
\<close>

theorem validators_total_outside_nullish:
  "(nullish args \<longrightarrow>
      isSetBpmArgs args = Inl TypeError \<and>
      isToggleStepArgs args = Inl TypeError \<and>
      isSetNoteArgs args = Inl TypeError \<and>
      isBatchUpdateArgs args = Inl TypeError \<and>
      isSendPresetArgs args = Inl TypeError \<and>
      isChangeMidiOutputArgs args = Inl TypeError \<and>
      isChangeMidiInputArgs args = Inl TypeError \<and>
      isToggleMidiClockArgs args = Inl TypeError \<and>
      isUpdateCcArgs args = Inl TypeError) \<and>
   (\<not> nullish args \<longrightarrow>
      (\<exists>b. isSetBpmArgs args = Inr b) \<and>
      (\<exists>b. isToggleStepArgs args = Inr b) \<and>
      (\<exists>b. isSetNoteArgs args = Inr b) \<and>
      (\<exists>b. isSendPresetArgs args = Inr b) \<and>
      (\<exists>b. isChangeMidiOutputArgs args = Inr b) \<and>
      (\<exists>b. isChangeMidiInputArgs args = Inr b) \<and>
      (\<exists>b. isToggleMidiClockArgs args = Inr b) \<and>
      (\<exists>b. isUpdateCcArgs args = Inr b) \<and>
      ((\<forall>u \<in> set (elements (own args ''updates'')). \<not> nullish u) \<longrightarrow>
         (\<exists>b. isBatchUpdateArgs args = Inr b)))"
proof (intro conjI impI)
  assume a: "\<not> nullish args"
  assume "\<forall>u \<in> set (elements (own args ''updates'')). \<not> nullish u"
  then have "\<exists>b. every checkUpdate (elements (own args ''updates'')) = Inr b"
    by (intro every_total checkUpdate_total) simp
  then show "\<exists>b. isBatchUpdateArgs args = Inr b"
    using a by (auto simp: isBatchUpdateArgs_def)
qed (simp_all add: isSetBpmArgs_def isToggleStepArgs_def isSetNoteArgs_def
      isBatchUpdateArgs_def isSendPresetArgs_def isChangeMidiOutputArgs_def
      isChangeMidiInputArgs_def isToggleMidiClockArgs_def isUpdateCcArgs_def Let_def)

text \<open>On an object, a string and an array the validators answer; on \<^verbatim>\<open>null\<close> they
  throw.\<close>

theorem validators_total_outside_nullish_witness:
  "isSetBpmArgs (JObj [(''updates'', JArr [JStr ''x''])]) = Inr False \<and>
   isUpdateCcArgs (JStr ''PU1'') = Inr False \<and>
   isToggleStepArgs (JArr []) = Inr False \<and>
   isBatchUpdateArgs (JObj [(''updates'', JArr [JStr ''x''])]) = Inr False \<and>
   isBatchUpdateArgs (JObj [(''updates'', JArr [])]) = Inr True \<and>
   isToggleStepArgs JNull = Inl TypeError"
  using validators_total_outside_nullish [of "JObj [(''updates'', JArr [JStr ''x''])]"]
        validators_total_outside_nullish [of "JStr ''PU1''"]
        validators_total_outside_nullish [of "JArr []"]
        validators_total_outside_nullish [of "JObj [(''updates'', JArr [])]"]
        validators_total_outside_nullish [of JNull]
  by (simp add: nullish_def isSetBpmArgs_def isUpdateCcArgs_def isToggleStepArgs_def
      isBatchUpdateArgs_def checkUpdate_def array_includes_def validTracks_def validTypes_def)

text \<open>
  The claim as stated fails: a tool call without arguments hands \<^verbatim>\<open>undefined\<close> to the
  validator, whose first property read throws, and so does the read \<^verbatim>\<open>update.type\<close> on a
  \<^verbatim>\<open>null\<close> element of a batch.
\<close>

theorem validators_throw_on_nullish_counterexample:
  "isSetBpmArgs JUndefined = Inl TypeError \<and>
   isSetBpmArgs JNull = Inl TypeError \<and>
   isBatchUpdateArgs JUndefined = Inl TypeError \<and>
   isUpdateCcArgs JUndefined = Inl TypeError \<and>
   isBatchUpdateArgs (JObj [(''updates'', JArr [JNull])]) = Inl TypeError"
  by (simp add: isSetBpmArgs_def isBatchUpdateArgs_def isUpdateCcArgs_def checkUpdate_def
      nullish_def)

subsection \<open>The send contract\<close>

lemma on_message_connection:
  "on_message shortest s i = Some s' \<Longrightarrow>
     isConnected s' = isConnected s \<and> wsClient s' = wsClient s \<and> wire s' = wire s"
  by (auto simp: on_message_def split: inbound.splits option.splits)

lemma sendCommand_response_cong:
  "isConnected s' = isConnected s \<Longrightarrow> wsClient s' = wsClient s \<Longrightarrow>
     snd (sendCommand w s' c) = snd (sendCommand w s c)"
  by (simp add: sendCommand_def split: write_outcome.splits)

lemma sendCommand_cache: "currentState (fst (sendCommand w s c)) = currentState s"
  by (simp add: sendCommand_def split: write_outcome.splits)

lemma wire_sendCommand:
  "wire (fst (sendCommand w s c)) =
     (if isConnected s \<and> wsClient s \<noteq> None \<and> w = Written then wire s @ [c] else wire s)"
  by (cases w) (auto simp: sendCommand_def)

text \<open>
  C1, as amended. While connected, \<^verbatim>\<open>sendCommand\<close> hands the command to the socket and
  returns the success response that names the command when the write does not throw.
  When the write throws an \<^verbatim>\<open>Error\<close> with message \<open>m\<close>, or any other value whose string
  form is \<open>t\<close>, it returns an error response whose message is the text
  "Error sending command: " followed by \<open>m\<close>, or by \<open>t\<close>, and nothing is recorded as
  sent. The response is there when the call returns, and it is the same whatever inbound
  message was handled before the call.
\<close>

theorem sendCommand_connected:
  assumes "isConnected s" and "wsClient s \<noteq> None"
  shows "sendCommand Written s c =
           (s\<lparr>wire := wire s @ [c]\<rparr>,
            \<lparr>status = Success, data = Some (JObj [(''command'', JStr (command c))]),
             message = None\<rparr>) \<and>
         sendCommand (Threw (ErrorInstance m)) s c =
           (s, \<lparr>status = Error, data = None,
                message = Some (''Error sending command: '' @ m)\<rparr>) \<and>
         sendCommand (Threw (NotAnError t)) s c =
           (s, \<lparr>status = Error, data = None,
                message = Some (''Error sending command: '' @ t)\<rparr>) \<and>
         (\<forall>shortest i s'. on_message shortest s i = Some s' \<longrightarrow>
            snd (sendCommand w s' c) = snd (sendCommand w s c))"
proof (intro conjI allI impI)
  show "sendCommand Written s c =
           (s\<lparr>wire := wire s @ [c]\<rparr>,
            \<lparr>status = Success, data = Some (JObj [(''command'', JStr (command c))]),
             message = None\<rparr>)"
    using assms by (simp add: sendCommand_def)
  show "sendCommand (Threw (ErrorInstance m)) s c =
           (s, \<lparr>status = Error, data = None,
                message = Some (''Error sending command: '' @ m)\<rparr>)"
    using assms by (simp add: sendCommand_def)
  show "sendCommand (Threw (NotAnError t)) s c =
           (s, \<lparr>status = Error, data = None,
                message = Some (''Error sending command: '' @ t)\<rparr>)"
    using assms by (simp add: sendCommand_def)
next
  fix shortest i s'
  assume "on_message shortest s i = Some s'"
  then have "isConnected s' = isConnected s" and "wsClient s' = wsClient s"
    by (simp_all add: on_message_connection)
  then show "snd (sendCommand w s' c) = snd (sendCommand w s c)"
    by (rule sendCommand_response_cong)
qed

text \<open>The scenario of the specification: \<^verbatim>\<open>toggle_step(row=0, col=3)\<close> on a connection
  that has just opened, with no snapshot received; a write that throws an \<^verbatim>\<open>Error\<close>; and
  a write that throws the string "closed".\<close>

theorem sendCommand_connected_witness:
  "sendCommand Written (on_open Written (connectToMgb initial))
       \<lparr>command = ''toggle_step'',
        properties = [(''row'', JNum (Finite 0)), (''col'', JNum (Finite 3))]\<rparr> =
     (\<lparr>wsClient = Some 0, isConnected = True, currentState = None,
       wire = [\<lparr>command = ''get_state'', properties = []\<rparr>,
               \<lparr>command = ''toggle_step'',
                properties = [(''row'', JNum (Finite 0)), (''col'', JNum (Finite 3))]\<rparr>],
       timers = [], sockets = 1\<rparr>,
      \<lparr>status = Success, data = Some (JObj [(''command'', JStr ''toggle_step'')]),
       message = None\<rparr>) \<and>
   sendCommand (Threw (ErrorInstance ''socket gone''))
          (on_open Written (connectToMgb initial))
          \<lparr>command = ''toggle_play'', properties = []\<rparr> =
     (on_open Written (connectToMgb initial),
      \<lparr>status = Error, data = None,
       message = Some ''Error sending command: socket gone''\<rparr>) \<and>
   sendCommand (Threw (NotAnError ''closed''))
          (on_open Written (connectToMgb initial))
          \<lparr>command = ''toggle_play'', properties = []\<rparr> =
     (on_open Written (connectToMgb initial),
      \<lparr>status = Error, data = None,
       message = Some ''Error sending command: closed''\<rparr>)"
  using sendCommand_connected
          [of "on_open Written (connectToMgb initial)"
              "\<lparr>command = ''toggle_step'',
                properties = [(''row'', JNum (Finite 0)), (''col'', JNum (Finite 3))]\<rparr>"]
        sendCommand_connected
          [of "on_open Written (connectToMgb initial)"
              "\<lparr>command = ''toggle_play'', properties = []\<rparr>"
              "''socket gone''" "''closed''"]
  by (simp add: on_open_def connectToMgb_def initial_def sendCommand_def)

text \<open>
  The claim as stated fails in its second half: when the write throws an \<^verbatim>\<open>Error\<close> whose
  message is "socket gone", the message of the response is not that cause but
  "Error sending command: socket gone".
\<close>

theorem sendCommand_message_counterexample:
  "message (snd (sendCommand (Threw (ErrorInstance ''socket gone''))
                   (on_open Written (connectToMgb initial))
                   \<lparr>command = ''toggle_play'', properties = []\<rparr>)) =
     Some ''Error sending command: socket gone'' \<and>
   message (snd (sendCommand (Threw (ErrorInstance ''socket gone''))
                   (on_open Written (connectToMgb initial))
                   \<lparr>command = ''toggle_play'', properties = []\<rparr>)) \<noteq>
     Some ''socket gone''"
  by (simp add: on_open_def connectToMgb_def initial_def sendCommand_def)

text \<open>
  C2. While not connected (the flag is down, or there is no socket), \<^verbatim>\<open>sendCommand\<close>
  returns the error response "Not connected to mGB MIDI sequencer" whatever the
  transport would do, and leaves the bridge as it was: nothing is handed to the socket.
  It returns a response on every path; it has no path that throws.
\<close>

theorem sendCommand_disconnected:
  assumes "\<not> isConnected s \<or> wsClient s = None"
  shows "sendCommand w s c =
           (s, \<lparr>status = Error, data = None,
                message = Some (''Not connected'' @ '' to mGB MIDI sequencer'')\<rparr>)"
  using assms by (auto simp: sendCommand_def)

text \<open>Before the socket has opened, and after an error event on an open socket.\<close>

theorem sendCommand_disconnected_witness:
  "sendCommand Written (connectToMgb initial) \<lparr>command = ''toggle_play'', properties = []\<rparr> =
     (connectToMgb initial,
      \<lparr>status = Error, data = None, message = Some ''Not connected to mGB MIDI sequencer''\<rparr>) \<and>
   wire (fst (sendCommand Written (on_error (on_open Written (connectToMgb initial)))
                \<lparr>command = ''toggle_play'', properties = []\<rparr>)) =
     [\<lparr>command = ''get_state'', properties = []\<rparr>]"
  using sendCommand_disconnected
          [of "connectToMgb initial" Written "\<lparr>command = ''toggle_play'', properties = []\<rparr>"]
        sendCommand_disconnected
          [of "on_error (on_open Written (connectToMgb initial))" Written
              "\<lparr>command = ''toggle_play'', properties = []\<rparr>"]
  by (simp add: on_open_def on_error_def connectToMgb_def initial_def sendCommand_def)

subsection \<open>The reconnect delay\<close>

text \<open>The exponent \<^const>\<open>excess_bits\<close> finds is the one that leaves 53 significant bits.\<close>

declare excess_bits.simps [simp del]

lemma excess_bits_upper: "M < 2 ^ (53 + excess_bits M)"
proof (induction M rule: excess_bits.induct)
  case (1 M)
  show ?case
  proof (cases "M < 2 ^ 53")
    case True
    then show ?thesis
      by (simp add: excess_bits.simps [of M])
  next
    case False
    with 1 have "M div 2 < 2 ^ (53 + excess_bits (M div 2))"
      by simp
    then have "M < 2 * 2 ^ (53 + excess_bits (M div 2))"
      by linarith
    moreover from False have "excess_bits M = Suc (excess_bits (M div 2))"
      by (simp add: excess_bits.simps [of M])
    ultimately show ?thesis
      by (simp only: add_Suc_right power_Suc)
  qed
qed

lemma excess_bits_lower: "0 < excess_bits M \<Longrightarrow> 2 ^ (52 + excess_bits M) \<le> M"
proof (induction M rule: excess_bits.induct)
  case (1 M)
  show ?case
  proof (cases "M < 2 ^ 53")
    case True
    with 1(2) show ?thesis
      by (simp add: excess_bits.simps [of M])
  next
    case False
    show ?thesis
    proof (cases "0 < excess_bits (M div 2)")
      case True
      with 1(1) False have "2 ^ (52 + excess_bits (M div 2)) \<le> M div 2"
        by simp
      then have "2 * 2 ^ (52 + excess_bits (M div 2)) \<le> M"
        by linarith
      moreover from False have "excess_bits M = Suc (excess_bits (M div 2))"
        by (simp add: excess_bits.simps [of M])
      ultimately show ?thesis
        by (simp only: add_Suc_right power_Suc)
    next
      case zero: False
      from False have "excess_bits M = Suc (excess_bits (M div 2))"
        by (simp add: excess_bits.simps [of M])
      with zero have "excess_bits M = 1"
        by simp
      with False show ?thesis
        by simp
    qed
  qed
qed

lemma excess_bits_le:
  assumes "M < 2 ^ (53 + n)"
  shows "excess_bits M \<le> n"
proof (rule ccontr)
  assume "\<not> excess_bits M \<le> n"
  then have lt: "n < excess_bits M"
    by simp
  then have "0 < excess_bits M"
    by simp
  then have "2 ^ (52 + excess_bits M) \<le> M"
    by (rule excess_bits_lower)
  moreover have "(2::nat) ^ (53 + n) \<le> 2 ^ (52 + excess_bits M)"
    using lt by (intro power_increasing) simp_all
  ultimately show False
    using assms by linarith
qed

lemma round_to_53_cases:
  "round_to_53 M = (M div 2 ^ excess_bits M) * 2 ^ excess_bits M \<or>
   round_to_53 M = (M div 2 ^ excess_bits M + 1) * 2 ^ excess_bits M \<and>
     2 ^ excess_bits M \<le> 2 * (M mod 2 ^ excess_bits M)"
  by (auto simp: round_to_53_def Let_def)

lemma round_to_53_upper: "2 * round_to_53 M \<le> 2 * M + 2 ^ excess_bits M"
proof -
  let ?s = "excess_bits M"
  have split: "M = (M div 2 ^ ?s) * 2 ^ ?s + M mod 2 ^ ?s"
    by (rule div_mult_mod_eq [symmetric])
  from round_to_53_cases [of M] show ?thesis
  proof
    assume "round_to_53 M = (M div 2 ^ ?s) * 2 ^ ?s"
    with split show ?thesis
      by linarith
  next
    assume a: "round_to_53 M = (M div 2 ^ ?s + 1) * 2 ^ ?s \<and> 2 ^ ?s \<le> 2 * (M mod 2 ^ ?s)"
    then have "round_to_53 M = (M div 2 ^ ?s) * 2 ^ ?s + 2 ^ ?s"
      by (simp add: algebra_simps)
    with a split show ?thesis
      by linarith
  qed
qed

lemma round_to_53_lower: "2 * M \<le> 2 * round_to_53 M + 2 ^ excess_bits M"
proof -
  let ?s = "excess_bits M"
  have split: "M = (M div 2 ^ ?s) * 2 ^ ?s + M mod 2 ^ ?s"
    by (rule div_mult_mod_eq [symmetric])
  have rest: "M mod 2 ^ ?s < 2 ^ ?s"
    by simp
  show ?thesis
  proof (cases "2 ^ ?s < 2 * (M mod 2 ^ ?s) \<or>
      (2 * (M mod 2 ^ ?s) = 2 ^ ?s \<and> odd (M div 2 ^ ?s))")
    case True
    then have "round_to_53 M = (M div 2 ^ ?s) * 2 ^ ?s + 2 ^ ?s"
      by (simp add: round_to_53_def Let_def algebra_simps)
    with split rest show ?thesis
      by linarith
  next
    case False
    then have r: "round_to_53 M = (M div 2 ^ ?s) * 2 ^ ?s"
      by (simp add: round_to_53_def Let_def)
    from False have "2 * (M mod 2 ^ ?s) \<le> 2 ^ ?s"
      by auto
    with r split show ?thesis
      by linarith
  qed
qed

lemma round_to_53_multiple: "2 ^ excess_bits M dvd round_to_53 M"
  using round_to_53_cases [of M] by auto

lemma product_below_3000:
  assumes "is_random d"
  shows "round_to_53 (3000 * significand d) < 3000 * 2 ^ scale d"
proof -
  let ?m = "significand d" and ?k = "scale d"
  let ?M = "3000 * ?m"
  from assms have m53: "?m < 2 ^ 53" and mk: "?m < 2 ^ ?k"
    by (simp_all add: is_random_def)
  have "?M < 4096 * 2 ^ 53"
    using m53 by linarith
  also have "(4096::nat) * 2 ^ 53 = 2 ^ (53 + 12)"
    by simp
  finally have "excess_bits ?M \<le> 12"
    by (rule excess_bits_le)
  then have "(2::nat) ^ excess_bits ?M \<le> 2 ^ 12"
    by (intro power_increasing) simp_all
  then have small: "(2::nat) ^ excess_bits ?M \<le> 4096"
    by simp
  from mk have "?m + 1 \<le> 2 ^ ?k"
    by simp
  then have "3000 * (?m + 1) \<le> 3000 * 2 ^ ?k"
    by (rule mult_le_mono2)
  then have "?M + 3000 \<le> 3000 * 2 ^ ?k"
    by simp
  with round_to_53_upper [of ?M] small show ?thesis
    by linarith
qed

lemma floor_quotient: "\<lfloor>real a / 2 ^ k\<rfloor> = int (a div 2 ^ k)"
proof -
  have "\<lfloor>real a / real (2 ^ k)\<rfloor> = int (a div 2 ^ k)"
    by (simp only: floor_divide_of_nat_eq)
  then show ?thesis
    by simp
qed

text \<open>
  C7. The close handler marks the bridge disconnected and schedules one call of
  \<^verbatim>\<open>connectToMgb\<close>, after the delay computed from the number \<open>r\<close> drawn in this very
  call. For every double \<open>r\<close> with \<open>0 \<le> r < 1\<close> the delay is 5000 plus the floor of the
  product \<^verbatim>\<open>r * 3000\<close> as the machine computes it, and it lies in \<open>[5000, 8000)\<close>. The
  computed product is the exact one rounded to 53 significant bits: a multiple of the
  unit that leaves 53 bits, at most half a unit away from the exact product.
\<close>

theorem reconnect_delay_range:
  assumes "is_random d"
  shows "on_close d s = s\<lparr>isConnected := False, timers := timers s @ [reconnectDelay d]\<rparr> \<and>
         reconnectDelay d =
           5000 + \<lfloor>real (round_to_53 (3000 * significand d)) / 2 ^ scale d\<rfloor> \<and>
         5000 \<le> reconnectDelay d \<and> reconnectDelay d < 8000 \<and>
         0 \<le> value_of d \<and> value_of d < 1 \<and>
         2 ^ excess_bits (3000 * significand d) dvd round_to_53 (3000 * significand d) \<and>
         \<bar>real (round_to_53 (3000 * significand d)) / 2 ^ scale d - 3000 * value_of d\<bar>
           \<le> 2 ^ excess_bits (3000 * significand d) / 2 / 2 ^ scale d \<and>
         3000 * significand d < 2 ^ (53 + excess_bits (3000 * significand d)) \<and>
         (0 < excess_bits (3000 * significand d) \<longrightarrow>
            2 ^ (52 + excess_bits (3000 * significand d)) \<le> 3000 * significand d)"
proof (intro conjI)
  let ?M = "3000 * significand d" and ?k = "scale d"
  show "on_close d s = s\<lparr>isConnected := False, timers := timers s @ [reconnectDelay d]\<rparr>"
    by (simp add: on_close_def)
  show "reconnectDelay d = 5000 + \<lfloor>real (round_to_53 ?M) / 2 ^ ?k\<rfloor>"
    by (simp add: reconnectDelay_def floor_quotient)
  show "5000 \<le> reconnectDelay d"
    by (simp add: reconnectDelay_def)
  have "round_to_53 ?M div 2 ^ ?k < 3000"
    using product_below_3000 [OF assms]
    by (simp add: less_mult_imp_div_less)
  then show "reconnectDelay d < 8000"
    by (simp add: reconnectDelay_def)
  show "0 \<le> value_of d"
    by (simp add: value_of_def)
  from assms have "real (significand d) < 2 ^ ?k"
    by (simp add: is_random_def)
  then show "value_of d < 1"
    by (simp add: value_of_def)
  show "2 ^ excess_bits ?M dvd round_to_53 ?M"
    by (rule round_to_53_multiple)
  have "real (2 * round_to_53 ?M) \<le> real (2 * ?M + 2 ^ excess_bits ?M)"
    using round_to_53_upper [of ?M] by (simp only: of_nat_le_iff)
  then have up: "2 * real (round_to_53 ?M) \<le> 2 * real ?M + 2 ^ excess_bits ?M"
    by simp
  have "real (2 * ?M) \<le> real (2 * round_to_53 ?M + 2 ^ excess_bits ?M)"
    using round_to_53_lower [of ?M] by (simp only: of_nat_le_iff)
  then have lo: "2 * real ?M \<le> 2 * real (round_to_53 ?M) + 2 ^ excess_bits ?M"
    by simp
  have "\<bar>real (round_to_53 ?M) - real ?M\<bar> \<le> 2 ^ excess_bits ?M / 2"
    using up lo by linarith
  then have "\<bar>real (round_to_53 ?M) - real ?M\<bar> / 2 ^ ?k \<le> 2 ^ excess_bits ?M / 2 / 2 ^ ?k"
    by (rule divide_right_mono) simp
  moreover have "real (round_to_53 ?M) / 2 ^ ?k - 3000 * value_of d =
      (real (round_to_53 ?M) - real ?M) / 2 ^ ?k"
    by (simp add: value_of_def diff_divide_distrib)
  moreover have "\<bar>(real (round_to_53 ?M) - real ?M) / 2 ^ ?k\<bar> =
      \<bar>real (round_to_53 ?M) - real ?M\<bar> / 2 ^ ?k"
    by (simp add: abs_divide)
  ultimately show "\<bar>real (round_to_53 ?M) / 2 ^ ?k - 3000 * value_of d\<bar>
           \<le> 2 ^ excess_bits ?M / 2 / 2 ^ ?k"
    by (simp only:)
  show "?M < 2 ^ (53 + excess_bits ?M)"
    by (rule excess_bits_upper)
  show "0 < excess_bits ?M \<longrightarrow> 2 ^ (52 + excess_bits ?M) \<le> ?M"
    by (simp add: excess_bits_lower)
qed

text \<open>The draws 0, 1/2 and the largest double below 1 give 5000, 6500 and 7999. For
  the draw \<open>90822592485305 / 2^51\<close> the exact product lies just below 121 and the
  computed one is 121: the delay is 5121.\<close>

theorem reconnect_delay_range_witness:
  "is_random \<lparr>significand = 90822592485305, scale = 51\<rparr> \<and>
   reconnectDelay \<lparr>significand = 90822592485305, scale = 51\<rparr> = 5121 \<and>
   \<lfloor>3000 * value_of \<lparr>significand = 90822592485305, scale = 51\<rparr>\<rfloor> = 120 \<and>
   on_close \<lparr>significand = 90822592485305, scale = 51\<rparr> initial =
     initial\<lparr>isConnected := False, timers := [5121]\<rparr> \<and>
   is_random \<lparr>significand = 1, scale = 1\<rparr> \<and>
   reconnectDelay \<lparr>significand = 1, scale = 1\<rparr> = 6500 \<and>
   is_random \<lparr>significand = 0, scale = 0\<rparr> \<and>
   reconnectDelay \<lparr>significand = 0, scale = 0\<rparr> = 5000 \<and>
   is_random \<lparr>significand = 9007199254740991, scale = 53\<rparr> \<and>
   reconnectDelay \<lparr>significand = 9007199254740991, scale = 53\<rparr> = 7999"
  using reconnect_delay_range [of "\<lparr>significand = 90822592485305, scale = 51\<rparr>" initial]
  by (simp add: is_random_def reconnectDelay_def round_to_53_def excess_bits.simps Let_def
      value_of_def on_close_def initial_def)

subsection \<open>Reading the state resource without a snapshot\<close>

text \<open>
  C8. While no snapshot is cached, a read of \<^verbatim>\<open>mgb://state\<close> does not fail: whatever
  the connection state and whatever the transport does with the \<^verbatim>\<open>get_state\<close> the
  handler sends, the contents are the default document with an \<^verbatim>\<open>_error\<close> field that is
  a non-empty string, and the cache is still empty afterwards.
\<close>

theorem read_state_without_snapshot:
  assumes "currentState s = None"
  shows "\<exists>s' e. readResource w s ''mgb://state'' =
           (s', Inr \<lparr>uri = ''mgb://state'', mimeType = ''application/json'',
                     body = [Stringify (JObj
                       [(''is_playing'', JBool False),
                        (''bpm'', JNum (Finite 120)),
                        (''current_step'', JNum (Finite 0)),
                        (''sequence'', JArr []),
                        (''note_values'', JArr []),
                        (''midi_output'', JStr []),
                        (''midi_input'', JStr []),
                        (''midi_clock_enabled'', JBool False),
                        (''cc_values'', JObj []),
                        (''_error'', JStr e)])]\<rparr>) \<and>
           e \<noteq> [] \<and> currentState s' = None"
  using assms
  by (cases w)
     (auto simp: readResource_def sendCommand_def default_document_def message_or_def)

text \<open>Before the socket has opened the error is the one of \<^verbatim>\<open>sendCommand\<close>; on an open
  socket the request is written and the error says that the state is not available.\<close>

theorem read_state_without_snapshot_witness:
  "readResource Written (connectToMgb initial) ''mgb://state'' =
     (connectToMgb initial,
      Inr \<lparr>uri = ''mgb://state'', mimeType = ''application/json'',
           body = [Stringify (JObj
             [(''is_playing'', JBool False),
              (''bpm'', JNum (Finite 120)),
              (''current_step'', JNum (Finite 0)),
              (''sequence'', JArr []),
              (''note_values'', JArr []),
              (''midi_output'', JStr []),
              (''midi_input'', JStr []),
              (''midi_clock_enabled'', JBool False),
              (''cc_values'', JObj []),
              (''_error'', JStr ''Not connected to mGB MIDI sequencer'')])]\<rparr>) \<and>
   snd (readResource Written (on_open Written (connectToMgb initial)) ''mgb://state'') =
      Inr \<lparr>uri = ''mgb://state'', mimeType = ''application/json'',
           body = [Stringify (default_document ''mGB state is not available'')]\<rparr>"
  using read_state_without_snapshot [of "connectToMgb initial" Written]
        read_state_without_snapshot [of "on_open Written (connectToMgb initial)" Written]
  by (simp add: readResource_def sendCommand_def default_document_def message_or_def
      on_open_def connectToMgb_def initial_def)

subsection \<open>update_cc and update_synth_param\<close>

lemma cc_pattern_iff:
  "cc_pattern k = (\<exists>ds. k = ''cc'' @ ds \<and> ds \<noteq> [] \<and> list_all is_digit ds)"
  by (cases k rule: cc_pattern.cases) auto

lemma validTracks_iff:
  "array_includes validTracks v =
     (v \<in> JStr ` {''PU1'', ''PU2'', ''WAV'', ''NOISE'', ''POLY''})"
  by (cases v) (auto simp: array_includes_def validTracks_def)

lemma number_between_finite:
  "number_between lo hi v = (\<exists>r. v = JNum (Finite r) \<and> lo \<le> r \<and> r \<le> hi)"
proof (cases v)
  case (JNum n)
  then show ?thesis by (cases n) simp_all
qed simp_all

lemma isValidCC_iff:
  "isValidCC v =
     ((\<exists>ds. v = JStr (''cc'' @ ds) \<and> ds \<noteq> [] \<and> list_all is_digit ds) \<or>
      (\<exists>c. v = JNum (Finite c) \<and> 0 \<le> c \<and> c \<le> 127))"
proof (cases v)
  case (JNum n)
  then show ?thesis by (cases n) simp_all
next
  case (JStr k)
  then show ?thesis by (simp add: cc_pattern_iff)
qed simp_all

text \<open>What \<^verbatim>\<open>isUpdateCcArgs\<close> accepts: a track of the five, a cc that is "cc" followed
  by digits or a number from 0 to 127, and a value from 0 to 127.\<close>

lemma isUpdateCcArgs_iff:
  "(isUpdateCcArgs args = Inr True) =
     (own args ''track'' \<in> JStr ` {''PU1'', ''PU2'', ''WAV'', ''NOISE'', ''POLY''} \<and>
      ((\<exists>ds. own args ''cc'' = JStr (''cc'' @ ds) \<and> ds \<noteq> [] \<and> list_all is_digit ds) \<or>
       (\<exists>c. own args ''cc'' = JNum (Finite c) \<and> 0 \<le> c \<and> c \<le> 127)) \<and>
      (\<exists>v. own args ''value'' = JNum (Finite v) \<and> 0 \<le> v \<and> v \<le> 127))"
proof (cases "nullish args")
  case True
  then have "own args ''track'' = JUndefined"
    by (auto simp: nullish_def)
  with True show ?thesis
    by (auto simp: isUpdateCcArgs_def)
next
  case False
  then show ?thesis
    by (simp add: isUpdateCcArgs_def validTracks_iff isValidCC_iff number_between_finite
        del: isValidCC.simps number_between.simps)
qed

text \<open>
  C3. For arguments with a track of the five, a well-formed cc and a value from 0 to
  127, in every state of the bridge and whatever the transport does, the \<^verbatim>\<open>update_cc\<close>
  tool calls \<^verbatim>\<open>sendCommand\<close> once, drops its response and returns the acknowledgment
  "CC update sent for ..."; the cached state after the call is the cached state before
  it.
\<close>

theorem update_cc_acknowledged:
  assumes "own args ''track'' \<in> JStr ` {''PU1'', ''PU2'', ''WAV'', ''NOISE'', ''POLY''}"
    and "(\<exists>ds. own args ''cc'' = JStr (''cc'' @ ds) \<and> ds \<noteq> [] \<and> list_all is_digit ds) \<or>
         (\<exists>c. own args ''cc'' = JNum (Finite c) \<and> 0 \<le> c \<and> c \<le> 127)"
    and "\<exists>v. own args ''value'' = JNum (Finite v) \<and> 0 \<le> v \<and> v \<le> 127"
  shows "callTool w s ''update_cc'' args =
           (fst (sendCommand w s
                   \<lparr>command = ''update_cc'',
                    properties = [(''track'', own args ''track''), (''cc'', own args ''cc''),
                                  (''value'', own args ''value'')]\<rparr>),
            Inr [Lit ''CC update sent for '', Sub (own args ''track''), Lit '' '',
                 Sub (own args ''cc''), Lit '' = '', Sub (own args ''value'')]) \<and>
         currentState (fst (callTool w s ''update_cc'' args)) = currentState s"
proof -
  have "converts (own args ''track'')" and "converts (own args ''cc'')"
    and "converts (own args ''value'')"
    using assms by auto
  then have ack:
    "built [Lit ''CC update sent for '', Sub (own args ''track''), Lit '' '',
            Sub (own args ''cc''), Lit '' = '', Sub (own args ''value'')] =
     Inr [Lit ''CC update sent for '', Sub (own args ''track''), Lit '' '',
          Sub (own args ''cc''), Lit '' = '', Sub (own args ''value'')]"
    by (simp add: built_def)
  have "isUpdateCcArgs args = Inr True"
    using assms by (simp only: isUpdateCcArgs_iff simp_thms)
  then have "callTool w s ''update_cc'' args =
           (fst (sendCommand w s
                   \<lparr>command = ''update_cc'',
                    properties = [(''track'', own args ''track''), (''cc'', own args ''cc''),
                                  (''value'', own args ''value'')]\<rparr>),
            Inr [Lit ''CC update sent for '', Sub (own args ''track''), Lit '' '',
                 Sub (own args ''cc''), Lit '' = '', Sub (own args ''value'')])"
    by (simp add: callTool_def callTool_body_def guarded_def ack)
  then show ?thesis
    by (simp add: sendCommand_cache)
qed

text \<open>The scenario of the specification, \<^verbatim>\<open>update_cc(track="PU1", cc="cc1", value=80)\<close>,
  on an open connection and before any connection: the same acknowledgment, and no
  cached state in either case.\<close>

theorem update_cc_acknowledged_witness:
  "callTool Written (on_open Written (connectToMgb initial)) ''update_cc''
     (JObj [(''track'', JStr ''PU1''), (''cc'', JStr ''cc1''), (''value'', JNum (Finite 80))]) =
   (\<lparr>wsClient = Some 0, isConnected = True, currentState = None,
     wire = [\<lparr>command = ''get_state'', properties = []\<rparr>,
             \<lparr>command = ''update_cc'',
              properties = [(''track'', JStr ''PU1''), (''cc'', JStr ''cc1''),
                            (''value'', JNum (Finite 80))]\<rparr>],
     timers = [], sockets = 1\<rparr>,
    Inr [Lit ''CC update sent for '', Sub (JStr ''PU1''), Lit '' '', Sub (JStr ''cc1''),
         Lit '' = '', Sub (JNum (Finite 80))]) \<and>
   callTool Written initial ''update_cc''
     (JObj [(''track'', JStr ''PU1''), (''cc'', JStr ''cc1''), (''value'', JNum (Finite 80))]) =
   (initial,
    Inr [Lit ''CC update sent for '', Sub (JStr ''PU1''), Lit '' '', Sub (JStr ''cc1''),
         Lit '' = '', Sub (JNum (Finite 80))])"
proof -
  let ?args = "JObj [(''track'', JStr ''PU1''), (''cc'', JStr ''cc1''),
                     (''value'', JNum (Finite 80))]"
  have track: "own ?args ''track'' \<in> JStr ` {''PU1'', ''PU2'', ''WAV'', ''NOISE'', ''POLY''}"
    by simp
  have cc: "(\<exists>ds. own ?args ''cc'' = JStr (''cc'' @ ds) \<and> ds \<noteq> [] \<and> list_all is_digit ds) \<or>
         (\<exists>c. own ?args ''cc'' = JNum (Finite c) \<and> 0 \<le> c \<and> c \<le> 127)"
    by (simp add: is_digit_def)
  have v: "\<exists>v. own ?args ''value'' = JNum (Finite v) \<and> 0 \<le> v \<and> v \<le> 127"
    by simp
  show ?thesis
    using update_cc_acknowledged [OF track cc v, of Written "on_open Written (connectToMgb initial)"]
          update_cc_acknowledged [OF track cc v, of Written initial]
    by (simp add: on_open_def connectToMgb_def initial_def sendCommand_def)
qed

text \<open>
  C10, as amended. The dispatcher handles the name \<^verbatim>\<open>update_synth_param\<close>, which is
  neither a declared tool nor an operation of the specification. For every argument
  other than \<^verbatim>\<open>undefined\<close> and \<^verbatim>\<open>null\<close>, with no validation, in every state of the
  bridge, it calls \<^verbatim>\<open>sendCommand\<close> with an \<^verbatim>\<open>update_cc\<close> command built from the
  argument's \<^verbatim>\<open>track\<close>, \<^verbatim>\<open>param\<close> (as cc) and \<^verbatim>\<open>value\<close>, and drops the response. It
  then returns the acknowledgment when each of the three fields converts to a string;
  when one of them does not (an object with a property of its own named \<^verbatim>\<open>toString\<close>,
  or an array holding one), the command has been sent all the same and the call fails
  with an InternalError. On \<^verbatim>\<open>undefined\<close> and \<^verbatim>\<open>null\<close> the read of \<^verbatim>\<open>args.track\<close>
  throws: nothing is sent and the call fails with an InternalError.
\<close>

theorem update_synth_param_unvalidated:
  "''update_synth_param'' \<notin> set declared_tools \<and>
   ''update_synth_param'' \<notin> set spec_operation_surface \<and>
   (\<not> nullish args \<longrightarrow>
      callTool w s ''update_synth_param'' args =
        (fst (sendCommand w s
                \<lparr>command = ''update_cc'',
                 properties = [(''track'', own args ''track''), (''cc'', own args ''param''),
                               (''value'', own args ''value'')]\<rparr>),
         if converts (own args ''track'') \<and> converts (own args ''param'') \<and>
            converts (own args ''value'')
         then Inr [Lit ''Synth parameter update sent for '', Sub (own args ''track''), Lit '' '',
                   Sub (own args ''param''), Lit '' = '', Sub (own args ''value'')]
         else Inl (McpError InternalError [Lit ''Error calling mGB API: '', Caught TypeError]))) \<and>
   (nullish args \<longrightarrow>
      callTool w s ''update_synth_param'' args =
        (s, Inl (McpError InternalError [Lit ''Error calling mGB API: '', Caught TypeError])))"
  by (simp add: callTool_def callTool_body_def declared_tools_def spec_operation_surface_def
      built_def)

text \<open>Arguments of the wrong types are sent as they are and acknowledged; a track
  that is the object \<^verbatim>\<open>{"toString": 1}\<close> is sent and the call then fails; \<^verbatim>\<open>null\<close> is
  refused before anything is sent.\<close>

theorem update_synth_param_unvalidated_witness:
  "callTool Written (on_open Written (connectToMgb initial)) ''update_synth_param''
     (JObj [(''track'', JNum (Finite 7)), (''param'', JBool True)]) =
   (\<lparr>wsClient = Some 0, isConnected = True, currentState = None,
     wire = [\<lparr>command = ''get_state'', properties = []\<rparr>,
             \<lparr>command = ''update_cc'',
              properties = [(''track'', JNum (Finite 7)), (''cc'', JBool True),
                            (''value'', JUndefined)]\<rparr>],
     timers = [], sockets = 1\<rparr>,
    Inr [Lit ''Synth parameter update sent for '', Sub (JNum (Finite 7)), Lit '' '',
         Sub (JBool True), Lit '' = '', Sub JUndefined]) \<and>
   callTool Written (on_open Written (connectToMgb initial)) ''update_synth_param''
     (JObj [(''track'', JObj [(''toString'', JNum (Finite 1))]), (''param'', JStr ''cc1''),
            (''value'', JNum (Finite 3))]) =
   (\<lparr>wsClient = Some 0, isConnected = True, currentState = None,
     wire = [\<lparr>command = ''get_state'', properties = []\<rparr>,
             \<lparr>command = ''update_cc'',
              properties = [(''track'', JObj [(''toString'', JNum (Finite 1))]),
                            (''cc'', JStr ''cc1''), (''value'', JNum (Finite 3))]\<rparr>],
     timers = [], sockets = 1\<rparr>,
    Inl (McpError InternalError [Lit ''Error calling mGB API: '', Caught TypeError])) \<and>
   snd (callTool Written initial ''update_synth_param'' (JObj [])) =
    Inr [Lit ''Synth parameter update sent for '', Sub JUndefined, Lit '' '',
         Sub JUndefined, Lit '' = '', Sub JUndefined] \<and>
   snd (callTool Written initial ''update_synth_param''
          (JObj [(''value'', JArr [JObj []])])) =
    Inr [Lit ''Synth parameter update sent for '', Sub JUndefined, Lit '' '',
         Sub JUndefined, Lit '' = '', Sub (JArr [JObj []])] \<and>
   callTool Written initial ''update_synth_param'' JNull =
    (initial, Inl (McpError InternalError [Lit ''Error calling mGB API: '', Caught TypeError]))"
  using update_synth_param_unvalidated
          [of "JObj [(''track'', JNum (Finite 7)), (''param'', JBool True)]" Written
              "on_open Written (connectToMgb initial)"]
        update_synth_param_unvalidated
          [of "JObj [(''track'', JObj [(''toString'', JNum (Finite 1))]), (''param'', JStr ''cc1''),
                     (''value'', JNum (Finite 3))]" Written
              "on_open Written (connectToMgb initial)"]
        update_synth_param_unvalidated [of "JObj []" Written initial]
        update_synth_param_unvalidated [of "JObj [(''value'', JArr [JObj []])]" Written initial]
        update_synth_param_unvalidated [of JNull Written initial]
  by (simp add: nullish_def on_open_def connectToMgb_def initial_def sendCommand_def)

text \<open>
  The claim as stated fails in two ways. On a call that carries no arguments nothing is
  sent and the call ends in an InternalError. On the arguments
  \<^verbatim>\<open>{"track": {"toString": 1}, "param": "cc1", "value": 3}\<close> the command is sent and
  the call ends in an InternalError instead of the acknowledgment.
\<close>

theorem update_synth_param_undefined_counterexample:
  "callTool Written (on_open Written (connectToMgb initial)) ''update_synth_param'' JUndefined =
     (on_open Written (connectToMgb initial),
      Inl (McpError InternalError [Lit ''Error calling mGB API: '', Caught TypeError])) \<and>
   snd (callTool Written (on_open Written (connectToMgb initial)) ''update_synth_param''
          (JObj [(''track'', JObj [(''toString'', JNum (Finite 1))]), (''param'', JStr ''cc1''),
                 (''value'', JNum (Finite 3))])) =
     Inl (McpError InternalError [Lit ''Error calling mGB API: '', Caught TypeError])"
  by (simp add: callTool_def callTool_body_def nullish_def built_def)

subsection \<open>Batch validation against the schema of the specification\<close>

lemma every_True_iff:
  "(every f xs = Inr True) = list_all (\<lambda>x. f x = Inr True) xs"
  by (induction xs) (auto split: sum.splits)

text \<open>The checks of the code and the value domains of the table in its wider reading agree.\<close>

lemma is_number_eq: "is_number = grid_index Checked"
proof
  fix v show "is_number v = grid_index Checked v"
    by (cases v) simp_all
qed

lemma is_boolean_eq: "is_boolean = attribute_ok Checked OnOff"
proof
  fix v show "is_boolean v = attribute_ok Checked OnOff v"
    by (cases v) auto
qed

lemma number_between_eq: "number_between 0 127 = attribute_ok Checked Pitch"
proof
  fix v show "number_between 0 127 v = attribute_ok Checked Pitch v"
  proof (cases v)
    case (JNum n)
    then show ?thesis by (cases n) simp_all
  qed simp_all
qed

lemma one_two_three_eq: "array_includes one_two_three = attribute_ok Checked Division"
proof
  fix v show "array_includes one_two_three v = attribute_ok Checked Division v"
    by (cases v) (auto simp: array_includes_def one_two_three_def)
qed

lemma array_iff: "(isArray v \<and> list_all P (elements v)) = list_of P v"
  by (cases v) simp_all

lemma attribute_ok_undefined: "\<not> attribute_ok rd a JUndefined"
  by (cases rd; cases a) simp_all

lemma grid_index_undefined: "\<not> grid_index rd JUndefined"
  by (cases rd) simp_all

lemma has_field_own:
  "\<not> P JUndefined \<Longrightarrow> has_field fs k P = P (own (JObj fs) k)"
  by (simp add: has_field_def split: option.splits)

lemma validTypes_string:
  "array_includes validTypes (JStr t) = (map_of variants t \<noteq> None)"
  by (simp add: array_includes_def validTypes_def variants_def)

lemma validTypes_other:
  "(\<And>t. v \<noteq> JStr t) \<Longrightarrow> \<not> array_includes validTypes v"
  by (cases v) (auto simp: array_includes_def validTypes_def)

lemma variants_cases:
  assumes "map_of variants t = Some (g, a)"
  shows "(t = ''sequence'' \<and> g = Cell \<and> a = OnOff) \<or>
         (t = ''note'' \<and> g = Cell \<and> a = Pitch) \<or>
         (t = ''divide'' \<and> g = Cell \<and> a = Division) \<or>
         (t = ''sequence_row'' \<and> g = Row \<and> a = OnOff) \<or>
         (t = ''note_row'' \<and> g = Row \<and> a = Pitch) \<or>
         (t = ''divide_row'' \<and> g = Row \<and> a = Division) \<or>
         (t = ''sequence_all'' \<and> g = Grid \<and> a = OnOff) \<or>
         (t = ''note_all'' \<and> g = Grid \<and> a = Pitch) \<or>
         (t = ''divide_all'' \<and> g = Grid \<and> a = Division)"
proof -
  have "(t, g, a) \<in> set variants"
    using assms by (rule map_of_SomeD)
  then show ?thesis
    unfolding variants_def by simp
qed

lemmas checkUpdate_simps =
  checkUpdate_def nullish_def validTypes_string variants_def has_field_own
  is_number_eq is_boolean_eq number_between_eq one_two_three_eq array_iff
  attribute_ok_undefined grid_index_undefined

text \<open>One lemma for each case of the switch: the case checks its cell of the table.\<close>

lemma checkUpdate_sequence:
  assumes "own (JObj fs) ''type'' = JStr ''sequence''"
  shows "checkUpdate (JObj fs) = Inr (variant_schema Checked Cell OnOff fs)"
  by (simp add: assms checkUpdate_simps del: attribute_ok.simps grid_index.simps own.simps)

lemma checkUpdate_note:
  assumes "own (JObj fs) ''type'' = JStr ''note''"
  shows "checkUpdate (JObj fs) = Inr (variant_schema Checked Cell Pitch fs)"
  by (simp add: assms checkUpdate_simps del: attribute_ok.simps grid_index.simps own.simps)

lemma checkUpdate_divide:
  assumes "own (JObj fs) ''type'' = JStr ''divide''"
  shows "checkUpdate (JObj fs) = Inr (variant_schema Checked Cell Division fs)"
  by (simp add: assms checkUpdate_simps del: attribute_ok.simps grid_index.simps own.simps)

lemma checkUpdate_sequence_row:
  assumes "own (JObj fs) ''type'' = JStr ''sequence_row''"
  shows "checkUpdate (JObj fs) = Inr (variant_schema Checked Row OnOff fs)"
  by (simp add: assms checkUpdate_simps del: attribute_ok.simps grid_index.simps own.simps)

lemma checkUpdate_note_row:
  assumes "own (JObj fs) ''type'' = JStr ''note_row''"
  shows "checkUpdate (JObj fs) = Inr (variant_schema Checked Row Pitch fs)"
  by (simp add: assms checkUpdate_simps del: attribute_ok.simps grid_index.simps own.simps)

lemma checkUpdate_divide_row:
  assumes "own (JObj fs) ''type'' = JStr ''divide_row''"
  shows "checkUpdate (JObj fs) = Inr (variant_schema Checked Row Division fs)"
  by (simp add: assms checkUpdate_simps del: attribute_ok.simps grid_index.simps own.simps)

lemma checkUpdate_sequence_all:
  assumes "own (JObj fs) ''type'' = JStr ''sequence_all''"
  shows "checkUpdate (JObj fs) = Inr (variant_schema Checked Grid OnOff fs)"
  by (simp add: assms checkUpdate_simps del: attribute_ok.simps grid_index.simps own.simps)

lemma checkUpdate_note_all:
  assumes "own (JObj fs) ''type'' = JStr ''note_all''"
  shows "checkUpdate (JObj fs) = Inr (variant_schema Checked Grid Pitch fs)"
  by (simp add: assms checkUpdate_simps del: attribute_ok.simps grid_index.simps own.simps)

lemma checkUpdate_divide_all:
  assumes "own (JObj fs) ''type'' = JStr ''divide_all''"
  shows "checkUpdate (JObj fs) = Inr (variant_schema Checked Grid Division fs)"
  by (simp add: assms checkUpdate_simps del: attribute_ok.simps grid_index.simps own.simps)

lemma checkUpdate_variant:
  assumes ty: "map_of fs ''type'' = Some (JStr t)"
    and v: "map_of variants t = Some (g, a)"
  shows "checkUpdate (JObj fs) = Inr (variant_schema Checked g a fs)"
proof -
  have own_ty: "own (JObj fs) ''type'' = JStr t"
    using ty by simp
  show ?thesis
    using variants_cases [OF v] own_ty
    by (elim disjE conjE)
       (simp_all only: checkUpdate_sequence checkUpdate_note checkUpdate_divide
          checkUpdate_sequence_row checkUpdate_note_row checkUpdate_divide_row
          checkUpdate_sequence_all checkUpdate_note_all checkUpdate_divide_all)
qed

lemma checkUpdate_no_variant:
  assumes "\<And>t. map_of fs ''type'' = Some (JStr t) \<Longrightarrow> map_of variants t = None"
  shows "checkUpdate (JObj fs) = Inr False"
proof (cases "own (JObj fs) ''type''")
  case (JStr t)
  then have "map_of fs ''type'' = Some (JStr t)"
    by (simp split: option.splits)
  then have "map_of variants t = None"
    by (rule assms)
  with JStr show ?thesis
    by (simp add: checkUpdate_def nullish_def validTypes_string del: own.simps)
qed (simp_all add: checkUpdate_def nullish_def validTypes_other del: own.simps)

lemma checkUpdate_passes: "(checkUpdate u = Inr True) = passes_checks u"
proof (cases u)
  case (JObj fs)
  show ?thesis
  proof (cases "\<exists>t g a. map_of fs ''type'' = Some (JStr t) \<and> map_of variants t = Some (g, a)")
    case True
    then obtain t g a where "map_of fs ''type'' = Some (JStr t)" "map_of variants t = Some (g, a)"
      by blast
    with JObj show ?thesis
      by (simp add: checkUpdate_variant passes_checks_def conforms_def)
  next
    case False
    then have none: "\<And>t. map_of fs ''type'' = Some (JStr t) \<Longrightarrow> map_of variants t = None"
      by (metis option.exhaust surj_pair)
    then have "\<not> passes_checks (JObj fs)"
      by (auto simp: passes_checks_def conforms_def split: option.splits jsval.splits)
    with JObj none show ?thesis
      by (simp add: checkUpdate_no_variant)
  qed
qed (simp_all add: checkUpdate_def passes_checks_def conforms_def nullish_def validTypes_other)

lemma isBatchUpdateArgs_passes:
  "(isBatchUpdateArgs args = Inr True) =
   (\<exists>us. own args ''updates'' = JArr us \<and> list_all passes_checks us)"
proof (cases "nullish args")
  case True
  then have "own args ''updates'' = JUndefined"
    by (auto simp: nullish_def)
  with True show ?thesis
    by (simp add: isBatchUpdateArgs_def)
next
  case False
  show ?thesis
  proof (cases "own args ''updates''")
    case (JArr us)
    with False show ?thesis
      by (simp add: isBatchUpdateArgs_def every_True_iff checkUpdate_passes)
  qed (simp_all add: isBatchUpdateArgs_def False)
qed

text \<open>Whatever the table as specified admits, the wider reading admits.\<close>

lemma grid_index_wider: "grid_index Specified v \<Longrightarrow> grid_index Checked v"
  by (cases v) simp_all

lemma attribute_ok_wider: "attribute_ok Specified a v \<Longrightarrow> attribute_ok Checked a v"
proof (cases a)
  case Pitch
  assume "attribute_ok Specified a v"
  with Pitch show ?thesis
    by (cases v) (auto split: jsnum.splits)
qed simp_all

lemma has_field_wider:
  "(\<And>v. P v \<Longrightarrow> Q v) \<Longrightarrow> has_field fs k P \<Longrightarrow> has_field fs k Q"
  by (simp add: has_field_def split: option.splits)

lemma list_of_wider:
  "(\<And>v. P v \<Longrightarrow> Q v) \<Longrightarrow> list_of P v \<Longrightarrow> list_of Q v"
  by (cases v) (auto simp: list_all_iff)

lemma variant_schema_wider:
  assumes "variant_schema Specified g a fs"
  shows "variant_schema Checked g a fs"
proof (cases g)
  case Cell
  with assms show ?thesis
    by (auto intro: has_field_wider [of "grid_index Specified" "grid_index Checked"]
        has_field_wider [of "attribute_ok Specified a" "attribute_ok Checked a"]
        grid_index_wider attribute_ok_wider)
next
  case Row
  have "\<And>v. list_of (attribute_ok Specified a) v \<Longrightarrow> list_of (attribute_ok Checked a) v"
    by (rule list_of_wider [of "attribute_ok Specified a"]) (rule attribute_ok_wider)
  with Row assms show ?thesis
    by (auto intro: has_field_wider [of "grid_index Specified" "grid_index Checked"]
        has_field_wider [of "list_of (attribute_ok Specified a)"
                            "list_of (attribute_ok Checked a)"]
        grid_index_wider)
next
  case Grid
  have "\<And>v. list_of (attribute_ok Specified a) v \<Longrightarrow> list_of (attribute_ok Checked a) v"
    by (rule list_of_wider [of "attribute_ok Specified a"]) (rule attribute_ok_wider)
  then have "\<And>v. list_of (list_of (attribute_ok Specified a)) v \<Longrightarrow>
      list_of (list_of (attribute_ok Checked a)) v"
    by (rule list_of_wider [of "list_of (attribute_ok Specified a)"])
  with Grid assms show ?thesis
    by (auto intro: has_field_wider [of "list_of (list_of (attribute_ok Specified a))"
                            "list_of (list_of (attribute_ok Checked a))"])
qed

lemma matches_schema_passes: "matches_schema u \<Longrightarrow> passes_checks u"
  by (auto simp: matches_schema_def passes_checks_def conforms_def variant_schema_wider
      split: jsval.splits option.splits)

lemma passes_checks_note:
  "passes_checks (JObj [(''type'', JStr ''note''), (''row'', r), (''col'', c), (''note'', n)]) =
     ((\<exists>x. r = JNum x) \<and> (\<exists>y. c = JNum y) \<and> (\<exists>z. n = JNum (Finite z) \<and> 0 \<le> z \<and> z \<le> 127))"
proof -
  have r: "grid_index Checked r = (\<exists>x. r = JNum x)"
    by (cases r) simp_all
  have c: "grid_index Checked c = (\<exists>y. c = JNum y)"
    by (cases c) simp_all
  have n: "attribute_ok Checked Pitch n = (\<exists>z. n = JNum (Finite z) \<and> 0 \<le> z \<and> z \<le> 127)"
    by (cases n) (auto split: jsnum.splits)
  show ?thesis
    by (simp add: passes_checks_def conforms_def variants_def has_field_def r c n
        del: grid_index.simps attribute_ok.simps)
qed

lemma matches_schema_note:
  "matches_schema (JObj [(''type'', JStr ''note''), (''row'', r), (''col'', c), (''note'', n)]) =
     ((\<exists>i. r = JNum (Finite (of_nat i))) \<and> (\<exists>j. c = JNum (Finite (of_nat j))) \<and>
      (\<exists>k \<le> 127. n = JNum (Finite (of_nat k))))"
proof -
  have whole: "\<And>x::real. (0 \<le> x \<and> x = of_int \<lfloor>x\<rfloor>) = (\<exists>i::nat. x = of_nat i)"
  proof
    fix x :: real
    assume "0 \<le> x \<and> x = of_int \<lfloor>x\<rfloor>"
    then have "x = of_nat (nat \<lfloor>x\<rfloor>)"
      by (metis floor_of_int of_int_floor_cancel of_nat_nat zero_le_floor)
    then show "\<exists>i::nat. x = of_nat i" ..
  next
    fix x :: real
    assume "\<exists>i::nat. x = of_nat i"
    then show "0 \<le> x \<and> x = of_int \<lfloor>x\<rfloor>"
      by auto
  qed
  have r: "grid_index Specified r = (\<exists>i. r = JNum (Finite (of_nat i)))"
    by (cases r) (auto simp: whole split: jsnum.splits)
  have c: "grid_index Specified c = (\<exists>j. c = JNum (Finite (of_nat j)))"
    by (cases c) (auto simp: whole split: jsnum.splits)
  have "\<And>x::real. (0 \<le> x \<and> x \<le> 127 \<and> x = of_int \<lfloor>x\<rfloor>) = (\<exists>k \<le> 127. x = of_nat k)"
    using whole by (metis of_nat_le_iff of_nat_numeral)
  then have n: "attribute_ok Specified Pitch n = (\<exists>k \<le> 127. n = JNum (Finite (of_nat k)))"
    by (cases n) (auto split: jsnum.splits)
  show ?thesis
    by (simp add: matches_schema_def conforms_def variants_def has_field_def r c n
        del: grid_index.simps attribute_ok.simps)
qed

text \<open>
  C4, as amended. \<^verbatim>\<open>isBatchUpdateArgs\<close> answers true exactly when \<^verbatim>\<open>updates\<close> is a list
  every item of which passes the checks: it is an object of one of the nine variants,
  with its \<^verbatim>\<open>row\<close> and \<^verbatim>\<open>col\<close> numbers of any kind (fractions, negative numbers, NaN
  and the infinities included), a state a boolean, a note any number from 0 to 127
  (fractions included), a division one of 1, 2, 3. Every list whose items match the
  schema of the table (whole indices from 0, notes integers from 0 to 127) is accepted;
  the converse does not hold. For a \<^verbatim>\<open>note\<close> item of exactly the four fields the two
  readings are spelled out. When the validator does not answer true, the
  \<^verbatim>\<open>batch_update\<close> tool fails and leaves the bridge as it was. What the tool hands to
  the socket is the one command that carries the whole \<^verbatim>\<open>updates\<close> list, when the list
  is accepted, the bridge connected and the write succeeds, and nothing otherwise.
\<close>

theorem batch_update_all_or_nothing:
  "(isBatchUpdateArgs args = Inr True) =
     (\<exists>us. own args ''updates'' = JArr us \<and> list_all passes_checks us) \<and>
   (\<forall>us. own args ''updates'' = JArr us \<and> list_all matches_schema us \<longrightarrow>
      isBatchUpdateArgs args = Inr True) \<and>
   passes_checks (JObj [(''type'', JStr ''note''), (''row'', r), (''col'', c), (''note'', n)]) =
     ((\<exists>x. r = JNum x) \<and> (\<exists>y. c = JNum y) \<and> (\<exists>z. n = JNum (Finite z) \<and> 0 \<le> z \<and> z \<le> 127)) \<and>
   matches_schema (JObj [(''type'', JStr ''note''), (''row'', r), (''col'', c), (''note'', n)]) =
     ((\<exists>i. r = JNum (Finite (of_nat i))) \<and> (\<exists>j. c = JNum (Finite (of_nat j))) \<and>
      (\<exists>k \<le> 127. n = JNum (Finite (of_nat k)))) \<and>
   (isBatchUpdateArgs args \<noteq> Inr True \<longrightarrow>
      (\<exists>e. callTool w s ''batch_update'' args = (s, Inl e))) \<and>
   wire (fst (callTool w s ''batch_update'' args)) =
     (if isBatchUpdateArgs args = Inr True \<and> isConnected s \<and> wsClient s \<noteq> None \<and> w = Written
      then wire s @ [\<lparr>command = ''batch_update'',
                      properties = [(''updates'', own args ''updates'')]\<rparr>]
      else wire s)"
proof (intro conjI impI allI)
  show "(isBatchUpdateArgs args = Inr True) =
     (\<exists>us. own args ''updates'' = JArr us \<and> list_all passes_checks us)"
    by (rule isBatchUpdateArgs_passes)
next
  fix us
  assume a: "own args ''updates'' = JArr us \<and> list_all matches_schema us"
  then have "list_all passes_checks us"
    by (auto simp: list_all_iff matches_schema_passes)
  with a show "isBatchUpdateArgs args = Inr True"
    by (simp add: isBatchUpdateArgs_passes)
next
  show "passes_checks (JObj [(''type'', JStr ''note''), (''row'', r), (''col'', c), (''note'', n)]) =
     ((\<exists>x. r = JNum x) \<and> (\<exists>y. c = JNum y) \<and> (\<exists>z. n = JNum (Finite z) \<and> 0 \<le> z \<and> z \<le> 127))"
    by (rule passes_checks_note)
next
  show "matches_schema (JObj [(''type'', JStr ''note''), (''row'', r), (''col'', c), (''note'', n)]) =
     ((\<exists>i. r = JNum (Finite (of_nat i))) \<and> (\<exists>j. c = JNum (Finite (of_nat j))) \<and>
      (\<exists>k \<le> 127. n = JNum (Finite (of_nat k))))"
    by (rule matches_schema_note)
next
  assume "isBatchUpdateArgs args \<noteq> Inr True"
  then show "\<exists>e. callTool w s ''batch_update'' args = (s, Inl e)"
    by (cases "isBatchUpdateArgs args")
       (auto simp: callTool_def callTool_body_def guarded_def)
next
  show "wire (fst (callTool w s ''batch_update'' args)) =
     (if isBatchUpdateArgs args = Inr True \<and> isConnected s \<and> wsClient s \<noteq> None \<and> w = Written
      then wire s @ [\<lparr>command = ''batch_update'',
                      properties = [(''updates'', own args ''updates'')]\<rparr>]
      else wire s)"
  proof (cases "isBatchUpdateArgs args")
    case (Inl e)
    then show ?thesis
      by (simp add: callTool_def callTool_body_def guarded_def)
  next
    case (Inr ok)
    show ?thesis
    proof (cases ok)
      case True
      with Inr have "fst (callTool w s ''batch_update'' args) =
          fst (sendCommand w s \<lparr>command = ''batch_update'',
                 properties = [(''updates'', own args ''updates'')]\<rparr>)"
        by (simp add: callTool_def callTool_body_def guarded_def awaited_def built_def reply_def
            split: prod.splits)
      with Inr True show ?thesis
        by (simp add: wire_sendCommand)
    next
      case False
      with Inr show ?thesis
        by (simp add: callTool_def callTool_body_def guarded_def)
    qed
  qed
qed

text \<open>A batch of a cell item and a row item is sent whole. With a second item whose
  note is 128 the batch is refused and nothing is sent, the valid first item
  included.\<close>

theorem batch_update_all_or_nothing_witness:
  "callTool Written (on_open Written (connectToMgb initial)) ''batch_update''
     (JObj [(''updates'', JArr
        [JObj [(''type'', JStr ''sequence''), (''row'', JNum (Finite 0)),
               (''col'', JNum (Finite 3)), (''state'', JBool True)],
         JObj [(''type'', JStr ''note_row''), (''row'', JNum (Finite 1)),
               (''notes'', JArr [JNum (Finite 60), JNum (Finite 127)])]])]) =
   (\<lparr>wsClient = Some 0, isConnected = True, currentState = None,
     wire = [\<lparr>command = ''get_state'', properties = []\<rparr>,
             \<lparr>command = ''batch_update'',
              properties = [(''updates'', JArr
                [JObj [(''type'', JStr ''sequence''), (''row'', JNum (Finite 0)),
                       (''col'', JNum (Finite 3)), (''state'', JBool True)],
                 JObj [(''type'', JStr ''note_row''), (''row'', JNum (Finite 1)),
                       (''notes'', JArr [JNum (Finite 60), JNum (Finite 127)])]])]\<rparr>],
     timers = [], sockets = 1\<rparr>,
    Inr [Lit ''Batch update completed successfully'']) \<and>
   callTool Written (on_open Written (connectToMgb initial)) ''batch_update''
     (JObj [(''updates'', JArr
        [JObj [(''type'', JStr ''sequence''), (''row'', JNum (Finite 0)),
               (''col'', JNum (Finite 3)), (''state'', JBool True)],
         JObj [(''type'', JStr ''note''), (''row'', JNum (Finite 1)),
               (''col'', JNum (Finite 0)), (''note'', JNum (Finite 128))]])]) =
   (on_open Written (connectToMgb initial),
    Inl (McpError InvalidParams [Lit ''Invalid batch update arguments'']))"
proof -
  let ?cell = "JObj [(''type'', JStr ''sequence''), (''row'', JNum (Finite 0)),
                     (''col'', JNum (Finite 3)), (''state'', JBool True)]"
  let ?good = "JObj [(''updates'', JArr
        [?cell,
         JObj [(''type'', JStr ''note_row''), (''row'', JNum (Finite 1)),
               (''notes'', JArr [JNum (Finite 60), JNum (Finite 127)])]])]"
  let ?bad = "JObj [(''updates'', JArr
        [?cell,
         JObj [(''type'', JStr ''note''), (''row'', JNum (Finite 1)),
               (''col'', JNum (Finite 0)), (''note'', JNum (Finite 128))]])]"
  have good: "isBatchUpdateArgs ?good = Inr True"
    using batch_update_all_or_nothing [of ?good]
    by (simp add: matches_schema_def conforms_def variants_def has_field_def)
  have bad: "isBatchUpdateArgs ?bad = Inr False"
    by (simp add: isBatchUpdateArgs_def nullish_def checkUpdate_def array_includes_def
        validTypes_def)
  show ?thesis
    using batch_update_all_or_nothing [of ?good _ _ _ Written "on_open Written (connectToMgb initial)"]
      batch_update_all_or_nothing [of ?bad _ _ _ Written "on_open Written (connectToMgb initial)"]
    by (simp add: good bad callTool_def callTool_body_def guarded_def awaited_def reply_def
        built_def sendCommand_def on_open_def connectToMgb_def initial_def)
qed

text \<open>
  The claim as stated fails in its "only if" half: a batch whose one item is a note of
  60.5 at row 0, column 0 is accepted, and so is one whose item sits at row -1.5 and
  column Infinity, though neither item matches the schema of the table.
\<close>

theorem batch_update_fraction_counterexample:
  "isBatchUpdateArgs (JObj [(''updates'', JArr
      [JObj [(''type'', JStr ''note''), (''row'', JNum (Finite 0)), (''col'', JNum (Finite 0)),
             (''note'', JNum (Finite (121 / 2)))]])]) = Inr True \<and>
   \<not> matches_schema
      (JObj [(''type'', JStr ''note''), (''row'', JNum (Finite 0)), (''col'', JNum (Finite 0)),
             (''note'', JNum (Finite (121 / 2)))]) \<and>
   isBatchUpdateArgs (JObj [(''updates'', JArr
      [JObj [(''type'', JStr ''note''), (''row'', JNum (Finite (- 3 / 2))),
             (''col'', JNum PosInfinity), (''note'', JNum (Finite (121 / 2)))]])]) = Inr True \<and>
   \<not> matches_schema
      (JObj [(''type'', JStr ''note''), (''row'', JNum (Finite (- 3 / 2))),
             (''col'', JNum PosInfinity), (''note'', JNum (Finite (121 / 2)))]) \<and>
   wire (fst (callTool Written (on_open Written (connectToMgb initial)) ''batch_update''
     (JObj [(''updates'', JArr
      [JObj [(''type'', JStr ''note''), (''row'', JNum (Finite 0)), (''col'', JNum (Finite 0)),
             (''note'', JNum (Finite (121 / 2)))]])]))) =
     [\<lparr>command = ''get_state'', properties = []\<rparr>,
      \<lparr>command = ''batch_update'', properties = [(''updates'', JArr
      [JObj [(''type'', JStr ''note''), (''row'', JNum (Finite 0)), (''col'', JNum (Finite 0)),
             (''note'', JNum (Finite (121 / 2)))]])]\<rparr>]"
  by (simp add: isBatchUpdateArgs_def nullish_def checkUpdate_def array_includes_def
      validTypes_def matches_schema_def conforms_def variants_def has_field_def
      callTool_def callTool_body_def guarded_def awaited_def reply_def built_def
      sendCommand_def on_open_def connectToMgb_def initial_def)

subsection \<open>The cc_update push and its key\<close>

declare decimal.simps [simp del]

lemma digit_cases:
  "d < 10 \<Longrightarrow> d = 0 \<or> d = 1 \<or> d = 2 \<or> d = 3 \<or> d = 4 \<or> d = 5 \<or> d = 6 \<or> d = 7 \<or> d = 8 \<or> d = (9::nat)"
  by arith

lemma digit_value_digit_char: "d < 10 \<Longrightarrow> digit_value (digit_char d) = d"
  using digit_cases [of d] by (auto simp: digit_value_def digit_char_def)

lemma digit_char_digit: "d < 10 \<Longrightarrow> digit_char d \<in> set ''0123456789''"
  using digit_cases [of d] by (auto simp: digit_char_def)

lemma digit_char_zero: "d < 10 \<Longrightarrow> digit_char d = CHR ''0'' \<Longrightarrow> d = 0"
  using digit_cases [of d] by (auto simp: digit_char_def)

lemma read_decimal_snoc: "read_decimal (ds @ [c]) = 10 * read_decimal ds + digit_value c"
  by (simp add: read_decimal_def)

lemma read_decimal_decimal: "read_decimal (decimal n) = n"
proof (induction n rule: decimal.induct)
  case (1 n)
  show ?case
  proof (cases "n < 10")
    case True
    then have "decimal n = [digit_char n]"
      by (simp add: decimal.simps [of n])
    with True show ?thesis
      by (simp add: read_decimal_def digit_value_digit_char)
  next
    case False
    then have "decimal n = decimal (n div 10) @ [digit_char (n mod 10)]"
      by (simp add: decimal.simps [of n])
    moreover from False 1 have "read_decimal (decimal (n div 10)) = n div 10"
      by simp
    ultimately show ?thesis
      by (simp add: read_decimal_snoc digit_value_digit_char)
  qed
qed

lemma decimal_digits: "list_all (\<lambda>c. c \<in> set ''0123456789'') (decimal n)"
proof (induction n rule: decimal.induct)
  case (1 n)
  show ?case
  proof (cases "n < 10")
    case True
    then have "decimal n = [digit_char n]"
      by (simp add: decimal.simps [of n])
    with True digit_char_digit [of n] show ?thesis
      by simp
  next
    case False
    then have "decimal n = decimal (n div 10) @ [digit_char (n mod 10)]"
      by (simp add: decimal.simps [of n])
    moreover from False 1
    have "list_all (\<lambda>c. c \<in> set ''0123456789'') (decimal (n div 10))"
      by simp
    moreover have "digit_char (n mod 10) \<in> set ''0123456789''"
      by (rule digit_char_digit) simp
    ultimately show ?thesis
      by simp
  qed
qed

lemma decimal_nonempty: "decimal n \<noteq> []"
  by (simp add: decimal.simps [of n])

lemma decimal_no_leading_zero: "n \<noteq> 0 \<Longrightarrow> hd (decimal n) \<noteq> CHR ''0''"
proof (induction n rule: decimal.induct)
  case (1 n)
  show ?case
  proof (cases "n < 10")
    case True
    then have "hd (decimal n) = digit_char n"
      by (simp add: decimal.simps [of n])
    with True 1(2) digit_char_zero [of n] show ?thesis
      by auto
  next
    case False
    then have "decimal n = decimal (n div 10) @ [digit_char (n mod 10)]"
      by (simp add: decimal.simps [of n])
    then have "hd (decimal n) = hd (decimal (n div 10))"
      by (simp add: decimal_nonempty)
    moreover from False have "n div 10 \<noteq> 0"
      by simp
    with False 1(1) have "hd (decimal (n div 10)) \<noteq> CHR ''0''"
      by simp
    ultimately show ?thesis
      by simp
  qed
qed

lemma decimal_leading_zero: "hd (decimal n) = CHR ''0'' \<Longrightarrow> decimal n = ''0''"
proof -
  assume "hd (decimal n) = CHR ''0''"
  then have "n = 0"
    using decimal_no_leading_zero [of n] by auto
  then show ?thesis
    by (simp add: decimal.simps [of 0] digit_char_def)
qed

lemma Number_toString_nat:
  "n < 2 ^ 53 \<Longrightarrow> Number_toString shortest (Finite (of_nat n)) = decimal n"
  by (simp add: Number_toString_def)

lemma ccKey_of_nat:
  "n < 2 ^ 53 \<Longrightarrow> ccKey_of shortest (CcNumber (Finite (of_nat n))) = ''cc'' @ decimal n"
  by (simp add: ccKey_of_def Number_toString_nat)

lemma ccKey_of_5: "ccKey_of shortest (CcNumber (Finite 5)) = ''cc5''"
  using ccKey_of_nat [of 5 shortest]
  by (simp add: decimal.simps [of 5] digit_char_def)

lemma ccKey_of_string: "ccKey_of shortest (CcString k) = k"
  by (simp add: ccKey_of_def)

lemma applyCcUpdate_5:
  "applyCcUpdate shortest st ''PU1'' (CcNumber (Finite 5)) v =
   applyCcUpdate shortest st ''PU1'' (CcString ''cc5'') v"
  unfolding applyCcUpdate_def ccKey_of_5 ccKey_of_string ..

lemma cc_not_proto: "''cc'' @ ds \<noteq> ''__proto__''"
  by simp

text \<open>
  C6. From any state of the bridge, the push \<^verbatim>\<open>{track:"PU1", cc:5, value:10}\<close> and the
  push \<^verbatim>\<open>{track:"PU1", cc:"cc5", value:10}\<close> lead to the same state, and after either of
  them each of the two changes nothing more. Where the cache has its \<^verbatim>\<open>cc_values\<close>, a
  numeric cc that is a whole number \<open>n\<close> below \<open>2^53\<close> is stored under the key "cc"
  followed by the decimal numeral of \<open>n\<close> (digits only, no leading zero, reading back as
  \<open>n\<close>), a string cc is stored under itself, and nothing else in the cache changes.
  Whatever the engine prints for the other finite numbers, a numeric cc is stored under
  "cc" followed by what Number::toString prints: a minus sign and the numeral for a
  negative whole number, "NaN", "Infinity" and "-Infinity".
\<close>

theorem cc_key_normalization:
  "on_message shortest s (CcUpdateMsg ''PU1'' (CcNumber (Finite 5)) (Finite 10)) =
     on_message shortest s (CcUpdateMsg ''PU1'' (CcString ''cc5'') (Finite 10)) \<and>
   (\<exists>s'. on_message shortest s (CcUpdateMsg ''PU1'' (CcNumber (Finite 5)) (Finite 10)) = Some s' \<and>
         on_message shortest s' (CcUpdateMsg ''PU1'' (CcString ''cc5'') (Finite 10)) = Some s' \<and>
         on_message shortest s' (CcUpdateMsg ''PU1'' (CcNumber (Finite 5)) (Finite 10)) = Some s') \<and>
   (cc_values st = Some ccv \<and> (ccv track \<noteq> None \<or> track \<notin> set Object_prototype_names) \<and>
    n < 2 ^ 53 \<and> k \<noteq> ''__proto__'' \<longrightarrow>
      (\<exists>ds. applyCcUpdate shortest st track (CcNumber (Finite (of_nat n))) v =
               Some (st\<lparr>cc_values := Some (ccv(track \<mapsto>
                 (case ccv track of None \<Rightarrow> Map.empty | Some d \<Rightarrow> d)(''cc'' @ ds \<mapsto> v)))\<rparr>) \<and>
            ds \<noteq> [] \<and> list_all (\<lambda>c. c \<in> set ''0123456789'') ds \<and>
            (hd ds = CHR ''0'' \<longrightarrow> ds = ''0'') \<and> read_decimal ds = n) \<and>
      applyCcUpdate shortest st track (CcString k) v =
        Some (st\<lparr>cc_values := Some (ccv(track \<mapsto>
          (case ccv track of None \<Rightarrow> Map.empty | Some d \<Rightarrow> d)(k \<mapsto> v)))\<rparr>)) \<and>
   (0 < n \<and> n < 2 ^ 53 \<longrightarrow>
      (\<exists>ds. ccKey_of shortest (CcNumber (Finite (- of_nat n))) = ''cc-'' @ ds \<and>
            ds \<noteq> [] \<and> list_all (\<lambda>c. c \<in> set ''0123456789'') ds \<and>
            hd ds \<noteq> CHR ''0'' \<and> read_decimal ds = n)) \<and>
   (r \<noteq> of_int \<lfloor>r\<rfloor> \<or> 2 ^ 53 \<le> \<bar>r\<bar> \<longrightarrow>
      ccKey_of shortest (CcNumber (Finite r)) = ''cc'' @ shortest r) \<and>
   ccKey_of shortest (CcNumber NaN) = ''ccNaN'' \<and>
   ccKey_of shortest (CcNumber PosInfinity) = ''ccInfinity'' \<and>
   ccKey_of shortest (CcNumber NegInfinity) = ''cc-Infinity'' \<and>
   ccKey_of shortest (CcString k) = k"
proof (intro conjI impI)
  show "on_message shortest s (CcUpdateMsg ''PU1'' (CcNumber (Finite 5)) (Finite 10)) =
     on_message shortest s (CcUpdateMsg ''PU1'' (CcString ''cc5'') (Finite 10))"
    by (simp add: on_message_def applyCcUpdate_5 cong: option.case_cong)
next
  show "\<exists>s'. on_message shortest s (CcUpdateMsg ''PU1'' (CcNumber (Finite 5)) (Finite 10)) = Some s' \<and>
         on_message shortest s' (CcUpdateMsg ''PU1'' (CcString ''cc5'') (Finite 10)) = Some s' \<and>
         on_message shortest s' (CcUpdateMsg ''PU1'' (CcNumber (Finite 5)) (Finite 10)) = Some s'"
    by (auto simp: on_message_def applyCcUpdate_def ccKey_of_5 ccKey_of_string
        Object_prototype_names_def split: option.splits)
next
  assume a: "cc_values st = Some ccv \<and> (ccv track \<noteq> None \<or> track \<notin> set Object_prototype_names) \<and>
    n < 2 ^ 53 \<and> k \<noteq> ''__proto__''"
  then have key: "ccKey_of shortest (CcNumber (Finite (of_nat n))) = ''cc'' @ decimal n"
    by (simp add: ccKey_of_nat)
  have "applyCcUpdate shortest st track (CcNumber (Finite (of_nat n))) v =
               Some (st\<lparr>cc_values := Some (ccv(track \<mapsto>
                 (case ccv track of None \<Rightarrow> Map.empty | Some d \<Rightarrow> d)(''cc'' @ decimal n \<mapsto> v)))\<rparr>)"
    using a by (auto simp: applyCcUpdate_def key)
  moreover have "hd (decimal n) = CHR ''0'' \<longrightarrow> decimal n = ''0''"
    by (simp add: decimal_leading_zero)
  ultimately show "\<exists>ds. applyCcUpdate shortest st track (CcNumber (Finite (of_nat n))) v =
               Some (st\<lparr>cc_values := Some (ccv(track \<mapsto>
                 (case ccv track of None \<Rightarrow> Map.empty | Some d \<Rightarrow> d)(''cc'' @ ds \<mapsto> v)))\<rparr>) \<and>
            ds \<noteq> [] \<and> list_all (\<lambda>c. c \<in> set ''0123456789'') ds \<and>
            (hd ds = CHR ''0'' \<longrightarrow> ds = ''0'') \<and> read_decimal ds = n"
    using decimal_nonempty [of n] decimal_digits [of n] read_decimal_decimal [of n]
    by blast
  show "applyCcUpdate shortest st track (CcString k) v =
        Some (st\<lparr>cc_values := Some (ccv(track \<mapsto>
          (case ccv track of None \<Rightarrow> Map.empty | Some d \<Rightarrow> d)(k \<mapsto> v)))\<rparr>)"
    using a by (auto simp: applyCcUpdate_def ccKey_of_string)
next
  assume a: "0 < n \<and> n < 2 ^ 53"
  have "\<lfloor>- real n\<rfloor> = - int n"
    by (metis floor_of_int of_int_minus of_int_of_nat_eq)
  with a have "ccKey_of shortest (CcNumber (Finite (- of_nat n))) = ''cc-'' @ decimal n"
    by (simp add: ccKey_of_def Number_toString_def)
  moreover from a have "hd (decimal n) \<noteq> CHR ''0''"
    by (simp add: decimal_no_leading_zero)
  ultimately show "\<exists>ds. ccKey_of shortest (CcNumber (Finite (- of_nat n))) = ''cc-'' @ ds \<and>
            ds \<noteq> [] \<and> list_all (\<lambda>c. c \<in> set ''0123456789'') ds \<and>
            hd ds \<noteq> CHR ''0'' \<and> read_decimal ds = n"
    using decimal_nonempty [of n] decimal_digits [of n] read_decimal_decimal [of n]
    by blast
next
  assume "r \<noteq> of_int \<lfloor>r\<rfloor> \<or> 2 ^ 53 \<le> \<bar>r\<bar>"
  then show "ccKey_of shortest (CcNumber (Finite r)) = ''cc'' @ shortest r"
    by (auto simp: ccKey_of_def Number_toString_def)
qed (simp_all add: ccKey_of_def Number_toString_def)

text \<open>On a snapshot with an empty \<^verbatim>\<open>cc_values\<close>: either push yields \<^verbatim>\<open>{PU1: {cc5: 10}}\<close>,
  and the string push after that changes nothing. The numbers 127, -5 and one half give
  the keys "cc127", "cc-5" and "cc" followed by the digits of the engine.\<close>

theorem cc_key_normalization_witness:
  "on_message (\<lambda>r. ''0.5'')
     (initial\<lparr>currentState := Some
        \<lparr>is_playing = False, bpm = Finite 120, current_step = Finite 0, sequence = [],
         note_values = [], midi_output = [], midi_input = [], midi_clock_enabled = False,
         cc_values = Some Map.empty\<rparr>\<rparr>)
     (CcUpdateMsg ''PU1'' (CcNumber (Finite 5)) (Finite 10)) =
   Some (initial\<lparr>currentState := Some
        \<lparr>is_playing = False, bpm = Finite 120, current_step = Finite 0, sequence = [],
         note_values = [], midi_output = [], midi_input = [], midi_clock_enabled = False,
         cc_values = Some [''PU1'' \<mapsto> [''cc5'' \<mapsto> Finite 10]]\<rparr>\<rparr>) \<and>
   on_message (\<lambda>r. ''0.5'')
     (initial\<lparr>currentState := Some
        \<lparr>is_playing = False, bpm = Finite 120, current_step = Finite 0, sequence = [],
         note_values = [], midi_output = [], midi_input = [], midi_clock_enabled = False,
         cc_values = Some Map.empty\<rparr>\<rparr>)
     (CcUpdateMsg ''PU1'' (CcString ''cc5'') (Finite 10)) =
   Some (initial\<lparr>currentState := Some
        \<lparr>is_playing = False, bpm = Finite 120, current_step = Finite 0, sequence = [],
         note_values = [], midi_output = [], midi_input = [], midi_clock_enabled = False,
         cc_values = Some [''PU1'' \<mapsto> [''cc5'' \<mapsto> Finite 10]]\<rparr>\<rparr>) \<and>
   on_message (\<lambda>r. ''0.5'')
     (initial\<lparr>currentState := Some
        \<lparr>is_playing = False, bpm = Finite 120, current_step = Finite 0, sequence = [],
         note_values = [], midi_output = [], midi_input = [], midi_clock_enabled = False,
         cc_values = Some [''PU1'' \<mapsto> [''cc5'' \<mapsto> Finite 10]]\<rparr>\<rparr>)
     (CcUpdateMsg ''PU1'' (CcString ''cc5'') (Finite 10)) =
   Some (initial\<lparr>currentState := Some
        \<lparr>is_playing = False, bpm = Finite 120, current_step = Finite 0, sequence = [],
         note_values = [], midi_output = [], midi_input = [], midi_clock_enabled = False,
         cc_values = Some [''PU1'' \<mapsto> [''cc5'' \<mapsto> Finite 10]]\<rparr>\<rparr>) \<and>
   ccKey_of (\<lambda>r. ''0.5'') (CcNumber (Finite 127)) = ''cc127'' \<and>
   ccKey_of (\<lambda>r. ''0.5'') (CcNumber (Finite (- 5))) = ''cc-5'' \<and>
   ccKey_of (\<lambda>r. ''0.5'') (CcNumber (Finite (1 / 2))) = ''cc0.5'' \<and>
   read_decimal ''127'' = 127"
  using cc_key_normalization
    [of "\<lambda>r. ''0.5''"
        "initial\<lparr>currentState := Some
        \<lparr>is_playing = False, bpm = Finite 120, current_step = Finite 0, sequence = [],
         note_values = [], midi_output = [], midi_input = [], midi_clock_enabled = False,
         cc_values = Some Map.empty\<rparr>\<rparr>"
        "\<lparr>is_playing = False, bpm = Finite 120, current_step = Finite 0, sequence = [],
         note_values = [], midi_output = [], midi_input = [], midi_clock_enabled = False,
         cc_values = Some Map.empty\<rparr>"
        Map.empty "''PU1''" 5 "''cc5''" "Finite 10" "1 / 2"]
  by (simp add: on_message_def applyCcUpdate_def ccKey_of_def Number_toString_def
      decimal.simps digit_char_def read_decimal_def digit_value_def
      Object_prototype_names_def initial_def)

end
